theory Spec2Isabelle
  imports Complex_Main
begin

section \<open>ColdMailer: the two prospecting applications\<close>

text \<open>
  The repository holds two variants of one single-page application. The first,
  \<^verbatim>\<open>cold-mailer/src/App.jsx\<close> ("AI Prospecting Hub"), is called the hub here; the
  second, the component titled "Prospecting Workflow Helper" (storage key
  \<^verbatim>\<open>workflowProspects\<close>), is called the workflow. Definitions that exist in both carry
  the prefix \<open>w_\<close> for the workflow.

  A JavaScript string is modelled as a \<^typ>\<open>string\<close>: a list of 8-bit characters, read as
  the UTF-16 code units U+0000 to U+00FF. Everything below is exact on that alphabet.
\<close>

subsection \<open>JavaScript strings\<close>

abbreviation LF :: char where
  "LF \<equiv> CHR 0x0A"

abbreviation dquote :: char where
  "dquote \<equiv> CHR 0x22"

abbreviation backslash :: char where
  "backslash \<equiv> CHR 0x5C"

text \<open>\<^verbatim>\<open>String.prototype.toLowerCase\<close>: on the code units below 256 the letters with a
  lower-case partner are A to Z and U+00C0 to U+00DE without the multiplication sign
  U+00D7; the partner is 32 further.\<close>

definition lowerChar :: "char \<Rightarrow> char" where
  "lowerChar c = (let n = (of_char c :: nat) in
     if (65 \<le> n \<and> n \<le> 90) \<or> (192 \<le> n \<and> n \<le> 222 \<and> n \<noteq> 215)
     then char_of (n + 32) else c)"

definition toLowerCase :: "string \<Rightarrow> string" where
  "toLowerCase s = map lowerChar s"

text \<open>\<^verbatim>\<open>s[0]\<close>: the string of the first code unit, \<^verbatim>\<open>undefined\<close> (here \<open>None\<close>) on
  the empty string.\<close>

definition charAt0 :: "string \<Rightarrow> string option" where
  "charAt0 s = (case s of [] \<Rightarrow> None | c # _ \<Rightarrow> Some [c])"

text \<open>\<^verbatim>\<open>x || ''\<close> for a string or \<^verbatim>\<open>undefined\<close>: the empty string and
  \<^verbatim>\<open>undefined\<close> are falsy.\<close>

definition orEmpty :: "string option \<Rightarrow> string" where
  "orEmpty x = (case x of None \<Rightarrow> [] | Some s \<Rightarrow> s)"

text \<open>Interpolation \<^verbatim>\<open>${x}\<close> in a template literal: \<^verbatim>\<open>undefined\<close> prints as the
  word.\<close>

definition interp :: "string option \<Rightarrow> string" where
  "interp x = (case x of None \<Rightarrow> ''undefined'' | Some s \<Rightarrow> s)"

text \<open>\<^verbatim>\<open>Array.prototype.join\<close> on an array of strings.\<close>

fun join :: "string \<Rightarrow> string list \<Rightarrow> string" where
  "join sep [] = []"
| "join sep [x] = x"
| "join sep (x # y # ys) = x @ sep @ join sep (y # ys)"

subsection \<open>Hub: the simulated AI helpers\<close>

definition guessPrompt :: string where
  "guessPrompt = ''Please enter a first name, last name, and domain to generate guesses.''"

text \<open>The array \<^verbatim>\<open>patterns\<close> of \<^verbatim>\<open>generateAIGuesses\<close>.\<close>

definition patterns :: "string \<Rightarrow> string \<Rightarrow> string \<Rightarrow> string list" where
  "patterns firstName lastName domain =
    (let fn = toLowerCase firstName;
         ln = toLowerCase lastName;
         fi = orEmpty (charAt0 fn);
         li = orEmpty (charAt0 ln)
     in [ fn @ ''.'' @ ln @ ''@'' @ domain,
          fi @ ln @ ''@'' @ domain,
          fn @ li @ ''@'' @ domain,
          fn @ ''@'' @ domain,
          ln @ ''@'' @ domain,
          fn @ ''_'' @ ln @ ''@'' @ domain,
          fi @ ''.'' @ ln @ ''@'' @ domain,
          fn @ ln @ ''@'' @ domain,
          ln @ ''.'' @ fn @ ''@'' @ domain,
          interp (charAt0 fn) @ interp (charAt0 ln) @ ''@'' @ domain ])"

definition generateAIGuesses :: "string \<Rightarrow> string \<Rightarrow> string \<Rightarrow> string" where
  "generateAIGuesses firstName lastName domain =
    (if firstName = [] \<or> lastName = [] \<or> domain = [] then guessPrompt
     else join [LF] (patterns firstName lastName domain))"

definition myService :: string where
  "myService = ''[Your Service, e.g., 'modern web design']''"

definition myValueProp :: string where
  "myValueProp = ''[Your Value Prop, e.g., 'help companies increase user engagement']''"

definition myName :: string where
  "myName = ''[Your Name]''"

definition draftPrompt :: string where
  "draftPrompt = ''Please enter at least a first name to draft an email.''"

definition draftAIEmail :: "string \<Rightarrow> string \<Rightarrow> string" where
  "draftAIEmail firstName company =
    (if firstName = [] then draftPrompt
     else ''Subject: Quick question re: '' @ company @ [LF, LF]
        @ ''Hi '' @ firstName @ '','' @ [LF, LF]
        @ ''I was on '' @ company
        @ '''s website and noticed you're the [Prospect's Title].'' @ [LF, LF]
        @ ''I specialize in '' @ myService @ '' and '' @ myValueProp
        @ ''. I had a quick idea on how you could [Specific Idea for Them].'' @ [LF, LF]
        @ ''Would you be open to a 10-minute chat next week if you're interested?''
        @ [LF, LF]
        @ ''Best,'' @ [LF, LF]
        @ myName @ [LF])"

subsection \<open>URI encoding and trimming\<close>

text \<open>\<^verbatim>\<open>String.prototype.trim\<close> removes white space and line terminators from both ends;
  below U+0100 these are U+0009 to U+000D, the space and the no-break space U+00A0.\<close>

definition isSpace :: "char \<Rightarrow> bool" where
  "isSpace c = (let n = (of_char c :: nat) in (9 \<le> n \<and> n \<le> 13) \<or> n = 32 \<or> n = 160)"

definition trim :: "string \<Rightarrow> string" where
  "trim s = rev (dropWhile isSpace (rev (dropWhile isSpace s)))"

text \<open>The characters that \<^verbatim>\<open>encodeURIComponent\<close> leaves alone: letters, digits and
  \<^verbatim>\<open>- _ . ! ~ * ' ( )\<close>. \<^verbatim>\<open>encodeURI\<close> also leaves \<^verbatim>\<open>; / ? : @ & = + $ , #\<close>.\<close>

definition uriUnescaped :: "char \<Rightarrow> bool" where
  "uriUnescaped c = (let n = (of_char c :: nat) in
     (65 \<le> n \<and> n \<le> 90) \<or> (97 \<le> n \<and> n \<le> 122) \<or> (48 \<le> n \<and> n \<le> 57)
     \<or> c \<in> set ''-_.!~*'()'')"

definition uriReserved :: "char \<Rightarrow> bool" where
  "uriReserved c = (c \<in> set '';/?:@&=+$,#'')"

definition hexUpper :: "nat \<Rightarrow> char" where
  "hexUpper d = (if d < 10 then char_of (48 + d) else char_of (55 + d))"

definition percent :: "nat \<Rightarrow> string" where
  "percent b = [CHR ''%'', hexUpper (b div 16), hexUpper (b mod 16)]"

text \<open>The UTF-8 octets of a code unit below U+0100.\<close>

definition utf8 :: "nat \<Rightarrow> nat list" where
  "utf8 n = (if n < 128 then [n] else [192 + n div 64, 128 + n mod 64])"

definition encodeChar :: "(char \<Rightarrow> bool) \<Rightarrow> char \<Rightarrow> string" where
  "encodeChar keep c = (if keep c then [c] else concat (map percent (utf8 (of_char c))))"

definition encodeURIComponent :: "string \<Rightarrow> string" where
  "encodeURIComponent s = concat (map (encodeChar uriUnescaped) s)"

definition encodeURI :: "string \<Rightarrow> string" where
  "encodeURI s = concat (map (encodeChar (\<lambda>c. uriUnescaped c \<or> uriReserved c)) s)"

subsection \<open>Workflow: search URLs\<close>

definition generateSearchUrl ::
  "string \<Rightarrow> string \<Rightarrow> string \<Rightarrow> string \<Rightarrow> string \<Rightarrow> string option" where
  "generateSearchUrl service firstName lastName company companyDomain =
    (let fullName = trim (firstName @ '' '' @ lastName) in
     if service = ''google_company'' then
       Some (''https://www.google.com/search?q=''
             @ encodeURIComponent (company @ '' official website''))
     else if service = ''linkedin'' then
       Some (''https://www.linkedin.com/search/results/people/?keywords=''
             @ encodeURIComponent (fullName @ '' '' @ company))
     else if service = ''experte'' then
       (if companyDomain = [] then None
        else Some (''https://www.experte.com/email-finder?name=''
                   @ encodeURIComponent fullName
                   @ ''&domain='' @ encodeURIComponent companyDomain))
     else None)"

subsection \<open>Prospect records and their JSON text\<close>

text \<open>A prospect of the hub. Its id is a time value, the milliseconds \<^verbatim>\<open>Date.now()\<close>
  returned when it was logged; every other field is a string.\<close>

record prospect =
  p_id :: nat
  p_firstName :: string
  p_lastName :: string
  p_company :: string
  p_domain :: string
  p_email :: string
  p_title :: string
  p_status :: string

text \<open>A prospect of the workflow: all fields are strings.\<close>

record w_prospect =
  wp_id :: string
  wp_firstName :: string
  wp_lastName :: string
  wp_company :: string
  wp_companyDomain :: string
  wp_email :: string
  wp_dateAdded :: string

text \<open>\<^verbatim>\<open>Number.prototype.toString\<close> on a non-negative integer below \<open>10\<^sup>2\<^sup>1\<close>: its
  decimal digits.\<close>

definition digitChar :: "nat \<Rightarrow> char" where
  "digitChar d = char_of (48 + d)"

fun showNat :: "nat \<Rightarrow> string" where
  "showNat n = (if n < 10 then [digitChar n] else showNat (n div 10) @ [digitChar (n mod 10)])"

declare showNat.simps [simp del]

text \<open>\<^verbatim>\<open>JSON.stringify\<close> on a string (QuoteJSONString): the quote, the backslash and the
  control characters are escaped, everything else is copied.\<close>

definition hexLower :: "nat \<Rightarrow> char" where
  "hexLower d = (if d < 10 then char_of (48 + d) else char_of (87 + d))"

definition quoteChar :: "char \<Rightarrow> string" where
  "quoteChar c = (let n = (of_char c :: nat) in
     if n = 8 then [backslash, CHR ''b'']
     else if n = 9 then [backslash, CHR ''t'']
     else if n = 10 then [backslash, CHR ''n'']
     else if n = 12 then [backslash, CHR ''f'']
     else if n = 13 then [backslash, CHR ''r'']
     else if n = 34 then [backslash, dquote]
     else if n = 92 then [backslash, backslash]
     else if n < 32 then
       [backslash, CHR ''u'', CHR ''0'', CHR ''0'', hexLower (n div 16), hexLower (n mod 16)]
     else [c])"

definition quoteJSON :: "string \<Rightarrow> string" where
  "quoteJSON s = dquote # concat (map quoteChar s) @ [dquote]"

text \<open>\<^verbatim>\<open>JSON.stringify\<close> on a prospect object and on the array of prospects. The
  properties come in the order in which the object literal of \<^verbatim>\<open>handleLogProspect\<close>
  creates them; the text has no white space.\<close>

definition stringifyProspect :: "prospect \<Rightarrow> string" where
  \<open>stringifyProspect p =
     ''{"id":'' @ showNat (p_id p)
     @ '',"firstName":'' @ quoteJSON (p_firstName p)
     @ '',"lastName":'' @ quoteJSON (p_lastName p)
     @ '',"company":'' @ quoteJSON (p_company p)
     @ '',"domain":'' @ quoteJSON (p_domain p)
     @ '',"email":'' @ quoteJSON (p_email p)
     @ '',"title":'' @ quoteJSON (p_title p)
     @ '',"status":'' @ quoteJSON (p_status p) @ ''}''\<close>

definition JSON_stringify :: "prospect list \<Rightarrow> string" where
  "JSON_stringify ps = ''['' @ join '','' (map stringifyProspect ps) @ '']''"

definition w_stringifyProspect :: "w_prospect \<Rightarrow> string" where
  \<open>w_stringifyProspect p =
     ''{"id":'' @ quoteJSON (wp_id p)
     @ '',"firstName":'' @ quoteJSON (wp_firstName p)
     @ '',"lastName":'' @ quoteJSON (wp_lastName p)
     @ '',"company":'' @ quoteJSON (wp_company p)
     @ '',"companyDomain":'' @ quoteJSON (wp_companyDomain p)
     @ '',"email":'' @ quoteJSON (wp_email p)
     @ '',"dateAdded":'' @ quoteJSON (wp_dateAdded p) @ ''}''\<close>

definition w_JSON_stringify :: "w_prospect list \<Rightarrow> string" where
  "w_JSON_stringify ps = ''['' @ join '','' (map w_stringifyProspect ps) @ '']''"

subsection \<open>JSON.parse\<close>

text \<open>A value that \<^verbatim>\<open>JSON.parse\<close> returns. Its strings are lists of UTF-16 code
  units, so that every escape \<^verbatim>\<open>\uXXXX\<close> has a value; \<open>units\<close> turns a string of the
  model into such a list. A number is the exact value of its literal (the rounding to a
  double, which leaves the integers up to \<open>2\<^sup>5\<^sup>3\<close> as they are, is not modelled). An
  object is the list of its properties in the order in which the object lists them.\<close>

type_synonym ustring = "nat list"

definition units :: "string \<Rightarrow> ustring" where
  "units s = map of_char s"

datatype json = JNull | JBool bool | JNum rat | JStr ustring | JArr "json list"
  | JObj "(ustring \<times> json) list"

text \<open>The lexical elements of a JSON text.\<close>

datatype token = LBrace | RBrace | LBrack | RBrack | Colon | Comma | Str ustring | Atom json

text \<open>Strings: after the opening quote, the code units up to the closing quote and the
  text behind it. A control character, an unknown escape and a missing closing quote are
  errors (\<open>None\<close>).\<close>

definition hexValue :: "char \<Rightarrow> nat option" where
  "hexValue c = (let n = (of_char c :: nat) in
     if 48 \<le> n \<and> n \<le> 57 then Some (n - 48)
     else if 65 \<le> n \<and> n \<le> 70 then Some (n - 55)
     else if 97 \<le> n \<and> n \<le> 102 then Some (n - 87)
     else None)"

definition unescape :: "char \<Rightarrow> nat option" where
  "unescape e =
    (if e = dquote then Some 34 else if e = backslash then Some 92
     else if e = CHR ''/'' then Some 47 else if e = CHR ''b'' then Some 8
     else if e = CHR ''f'' then Some 12 else if e = CHR ''n'' then Some 10
     else if e = CHR ''r'' then Some 13 else if e = CHR ''t'' then Some 9
     else None)"

definition hex4 :: "char \<Rightarrow> char \<Rightarrow> char \<Rightarrow> char \<Rightarrow> nat option" where
  "hex4 a b c d =
    (case (hexValue a, hexValue b, hexValue c, hexValue d) of
       (Some x, Some y, Some z, Some w) \<Rightarrow> Some (((x * 16 + y) * 16 + z) * 16 + w)
     | _ \<Rightarrow> None)"

definition consUnit :: "nat \<Rightarrow> (ustring \<times> string) option \<Rightarrow> (ustring \<times> string) option" where
  "consUnit u r = (case r of None \<Rightarrow> None | Some (us, rest) \<Rightarrow> Some (u # us, rest))"

fun stringBody :: "string \<Rightarrow> (ustring \<times> string) option" where
  "stringBody [] = None"
| "stringBody (c # cs) =
    (if c = dquote then Some ([], cs)
     else if c = backslash then
       (case cs of
          [] \<Rightarrow> None
        | e # r \<Rightarrow>
            if e = CHR ''u'' then
              (case r of
                 h1 # h2 # h3 # h4 # r' \<Rightarrow>
                   (case hex4 h1 h2 h3 h4 of
                      None \<Rightarrow> None
                    | Some u \<Rightarrow> consUnit u (stringBody r'))
               | _ \<Rightarrow> None)
            else
              (case unescape e of
                 None \<Rightarrow> None
               | Some u \<Rightarrow> consUnit u (stringBody r)))
     else if (of_char c :: nat) < 32 then None
     else consUnit (of_char c) (stringBody cs))"


text \<open>Numbers: an optional minus, the integer part, an optional fraction and an optional
  exponent.\<close>

definition isDigit :: "char \<Rightarrow> bool" where
  "isDigit c = (48 \<le> (of_char c :: nat) \<and> (of_char c :: nat) \<le> 57)"

definition decimal :: "string \<Rightarrow> nat" where
  "decimal ds = foldl (\<lambda>a c. 10 * a + (of_char c - 48)) 0 ds"

text \<open>The digits of the integer part: a single zero, or a run of digits that does not
  start with zero.\<close>

definition intDigits :: "string \<Rightarrow> string" where
  "intDigits s = (case s of [] \<Rightarrow> [] | c # t \<Rightarrow> if c = CHR ''0'' then [c] else takeWhile isDigit s)"

definition fraction :: "string \<Rightarrow> (string \<times> string) option" where
  "fraction s =
    (case s of
       [] \<Rightarrow> Some ([], s)
     | c # t \<Rightarrow>
         if c = CHR ''.'' then
           (if takeWhile isDigit t = [] then None
            else Some (takeWhile isDigit t, dropWhile isDigit t))
         else Some ([], s))"

definition exponent :: "string \<Rightarrow> (int \<times> string) option" where
  "exponent s =
    (case s of
       [] \<Rightarrow> Some (0, s)
     | c # t \<Rightarrow>
         if c = CHR ''e'' \<or> c = CHR ''E'' then
           (let neg = (case t of [] \<Rightarrow> False | d # _ \<Rightarrow> d = CHR ''-'');
                t' = (case t of [] \<Rightarrow> t | d # r \<Rightarrow> if d = CHR ''-'' \<or> d = CHR ''+'' then r else t)
            in if takeWhile isDigit t' = [] then None
               else Some ((if neg then - int (decimal (takeWhile isDigit t'))
                           else int (decimal (takeWhile isDigit t'))),
                          dropWhile isDigit t'))
         else Some (0, s))"

definition numberLit :: "string \<Rightarrow> (rat \<times> string) option" where
  "numberLit s =
    (let neg = (case s of [] \<Rightarrow> False | c # _ \<Rightarrow> c = CHR ''-'');
         s1 = (if neg then tl s else s);
         ip = intDigits s1
     in if ip = [] then None
        else case fraction (drop (length ip) s1) of
               None \<Rightarrow> None
             | Some (fp, s2) \<Rightarrow>
                 (case exponent s2 of
                    None \<Rightarrow> None
                  | Some (e, s3) \<Rightarrow>
                      Some ((if neg then - 1 else 1) * of_nat (decimal (ip @ fp))
                              * 10 powi (e - int (length fp)), s3)))"

text \<open>The tokens of a text; \<open>None\<close> when some part of it is no token. White space is
  the space, the tab, the line feed and the carriage return.\<close>

definition isWhite :: "char \<Rightarrow> bool" where
  "isWhite c = (c = CHR '' '' \<or> c = CHR 0x09 \<or> c = CHR 0x0A \<or> c = CHR 0x0D)"

definition consToken :: "token \<Rightarrow> token list option \<Rightarrow> token list option" where
  "consToken t r = (case r of None \<Rightarrow> None | Some ts \<Rightarrow> Some (t # ts))"

lemma stringBody_shorter: "stringBody s = Some (u, rest) \<Longrightarrow> length rest < Suc (length s)"
proof (induction s arbitrary: u rule: stringBody.induct)
  case 1
  then show ?case by simp
next
  case (2 c cs)
  then show ?case
    by (fastforce simp: consUnit_def less_Suc_eq split: if_splits list.splits option.splits)
qed

lemma fraction_shorter: "fraction s = Some (fp, rest) \<Longrightarrow> length rest \<le> length s"
  by (auto simp: fraction_def length_dropWhile_le le_SucI split: list.splits if_splits)

lemma exponent_shorter: "exponent s = Some (e, rest) \<Longrightarrow> length rest \<le> length s"
  by (auto simp: exponent_def Let_def length_dropWhile_le le_SucI
      intro: order_trans [OF length_dropWhile_le]
      split: list.splits if_splits)

lemma numberLit_shorter: "numberLit s = Some (q, rest) \<Longrightarrow> length rest < length s"
proof -
  assume a: "numberLit s = Some (q, rest)"
  define neg where "neg = (case s of [] \<Rightarrow> False | c # _ \<Rightarrow> c = CHR ''-'')"
  define s1 where "s1 = (if neg then tl s else s)"
  define ip where "ip = intDigits s1"
  from a have ne: "ip \<noteq> []"
    by (auto simp: numberLit_def Let_def neg_def s1_def ip_def split: if_splits)
  from a ne obtain fp s2 e where f: "fraction (drop (length ip) s1) = Some (fp, s2)"
    and x: "exponent s2 = Some (e, rest)"
    by (auto simp: numberLit_def Let_def neg_def s1_def ip_def split: option.splits)
  have "length ip \<le> length s1"
    by (auto simp: ip_def intDigits_def length_takeWhile_le split: list.splits)
  with ne have "length (drop (length ip) s1) < length s1"
    by (cases ip) auto
  moreover have "length s1 \<le> length s" by (simp add: s1_def)
  ultimately show ?thesis
    using fraction_shorter [OF f] exponent_shorter [OF x] by linarith
qed

function tokenize :: "string \<Rightarrow> token list option" where
  "tokenize [] = Some []"
| "tokenize (c # cs) =
    (if isWhite c then tokenize cs
     else if c = CHR ''{'' then consToken LBrace (tokenize cs)
     else if c = CHR ''}'' then consToken RBrace (tokenize cs)
     else if c = CHR ''['' then consToken LBrack (tokenize cs)
     else if c = CHR '']'' then consToken RBrack (tokenize cs)
     else if c = CHR '':'' then consToken Colon (tokenize cs)
     else if c = CHR '','' then consToken Comma (tokenize cs)
     else if c = dquote then
       (case stringBody cs of
          None \<Rightarrow> None
        | Some (u, rest) \<Rightarrow> consToken (Str u) (tokenize rest))
     else if c = CHR ''t'' then
       (if take 3 cs = ''rue'' then consToken (Atom (JBool True)) (tokenize (drop 3 cs))
        else None)
     else if c = CHR ''f'' then
       (if take 4 cs = ''alse'' then consToken (Atom (JBool False)) (tokenize (drop 4 cs))
        else None)
     else if c = CHR ''n'' then
       (if take 3 cs = ''ull'' then consToken (Atom JNull) (tokenize (drop 3 cs))
        else None)
     else
       (case numberLit (c # cs) of
          None \<Rightarrow> None
        | Some (q, rest) \<Rightarrow> consToken (Atom (JNum q)) (tokenize rest)))"
  by pat_completeness auto
termination
  by (relation "measure length")
     (auto dest: stringBody_shorter numberLit_shorter)

text \<open>Array indices, the property keys that an object lists first and in numeric order:
  the canonical decimal numerals below \<open>2\<^sup>3\<^sup>2 - 1\<close>.\<close>

definition arrayIndex :: "ustring \<Rightarrow> nat option" where
  "arrayIndex k =
    (if k \<noteq> [] \<and> list_all (\<lambda>u. 48 \<le> u \<and> u \<le> 57) k \<and> \<not> (1 < length k \<and> hd k = 48)
        \<and> foldl (\<lambda>a u. 10 * a + (u - 48)) 0 k < 4294967295
     then Some (foldl (\<lambda>a u. 10 * a + (u - 48)) 0 k) else None)"

definition before :: "nat \<Rightarrow> ustring \<times> json \<Rightarrow> bool" where
  "before i m = (case arrayIndex (fst m) of None \<Rightarrow> False | Some j \<Rightarrow> j < i)"

text \<open>CreateDataProperty on the members of an object, kept in the order in which the
  object lists its properties: an existing key keeps its place and takes the new value, a
  new array index goes to its numeric place, any other new key goes to the end.\<close>

definition putMember :: "ustring \<Rightarrow> json \<Rightarrow> (ustring \<times> json) list \<Rightarrow> (ustring \<times> json) list" where
  "putMember k v ms =
    (if k \<in> set (map fst ms) then map (\<lambda>m. if fst m = k then (k, v) else m) ms
     else case arrayIndex k of
            None \<Rightarrow> ms @ [(k, v)]
          | Some i \<Rightarrow> takeWhile (before i) ms @ (k, v) # dropWhile (before i) ms)"

text \<open>The grammar, as a machine that reads the tokens one by one. A frame is an array or
  an object that is still open, with the elements or members read so far (and, for an
  object, the key whose value is being read); \<open>expect\<close> says what may come next.\<close>

datatype frame = InArray "json list" | InObject "(ustring \<times> json) list" ustring

datatype expect =
    Value
  | FirstElement
  | NextElement "json list"
  | FirstKey
  | NextKey "(ustring \<times> json) list"
  | KeyColon "(ustring \<times> json) list" ustring
  | NextMember "(ustring \<times> json) list"
  | Done json

type_synonym config = "expect \<times> frame list"

fun complete :: "json \<Rightarrow> frame list \<Rightarrow> config" where
  "complete v [] = (Done v, [])"
| "complete v (InArray vs # st) = (NextElement (vs @ [v]), st)"
| "complete v (InObject ms k # st) = (NextMember (putMember k v ms), st)"

fun startValue :: "token \<Rightarrow> frame list \<Rightarrow> config option" where
  "startValue (Atom v) st = Some (complete v st)"
| "startValue (Str u) st = Some (complete (JStr u) st)"
| "startValue LBrack st = Some (FirstElement, st)"
| "startValue LBrace st = Some (FirstKey, st)"
| "startValue _ st = None"

fun step :: "config \<Rightarrow> token \<Rightarrow> config option" where
  "step (Value, st) t = startValue t st"
| "step (FirstElement, st) t =
     (if t = RBrack then Some (complete (JArr []) st) else startValue t (InArray [] # st))"
| "step (NextElement vs, st) t =
     (if t = Comma then Some (Value, InArray vs # st)
      else if t = RBrack then Some (complete (JArr vs) st)
      else None)"
| "step (FirstKey, st) t =
     (case t of RBrace \<Rightarrow> Some (complete (JObj []) st)
              | Str k \<Rightarrow> Some (KeyColon [] k, st)
              | _ \<Rightarrow> None)"
| "step (NextKey ms, st) t =
     (case t of Str k \<Rightarrow> Some (KeyColon ms k, st) | _ \<Rightarrow> None)"
| "step (KeyColon ms k, st) t =
     (if t = Colon then Some (Value, InObject ms k # st) else None)"
| "step (NextMember ms, st) t =
     (if t = Comma then Some (NextKey ms, st)
      else if t = RBrace then Some (complete (JObj ms) st)
      else None)"
| "step (Done v, st) t = None"

fun run :: "config \<Rightarrow> token list \<Rightarrow> config option" where
  "run cf [] = Some cf"
| "run cf (t # ts) = (case step cf t of None \<Rightarrow> None | Some cf' \<Rightarrow> run cf' ts)"

text \<open>\<^verbatim>\<open>JSON.parse\<close> throws a \<^verbatim>\<open>SyntaxError\<close> unless the text is exactly one JSON
  value.\<close>

datatype error = SyntaxError

definition JSON_parse :: "string \<Rightarrow> error + json" where
  "JSON_parse text =
    (case tokenize text of
       None \<Rightarrow> Inl SyntaxError
     | Some ts \<Rightarrow>
         (case run (Value, []) ts of
            Some (Done v, st) \<Rightarrow> Inr v
          | _ \<Rightarrow> Inl SyntaxError))"


text \<open>The JavaScript values that the prospect records are.\<close>

definition jsProspect :: "prospect \<Rightarrow> json" where
  "jsProspect p = JObj
     [(units ''id'', JNum (of_nat (p_id p))),
      (units ''firstName'', JStr (units (p_firstName p))),
      (units ''lastName'', JStr (units (p_lastName p))),
      (units ''company'', JStr (units (p_company p))),
      (units ''domain'', JStr (units (p_domain p))),
      (units ''email'', JStr (units (p_email p))),
      (units ''title'', JStr (units (p_title p))),
      (units ''status'', JStr (units (p_status p)))]"

definition jsProspects :: "prospect list \<Rightarrow> json" where
  "jsProspects ps = JArr (map jsProspect ps)"

definition w_jsProspect :: "w_prospect \<Rightarrow> json" where
  "w_jsProspect p = JObj
     [(units ''id'', JStr (units (wp_id p))),
      (units ''firstName'', JStr (units (wp_firstName p))),
      (units ''lastName'', JStr (units (wp_lastName p))),
      (units ''company'', JStr (units (wp_company p))),
      (units ''companyDomain'', JStr (units (wp_companyDomain p))),
      (units ''email'', JStr (units (wp_email p))),
      (units ''dateAdded'', JStr (units (wp_dateAdded p)))]"

definition w_jsProspects :: "w_prospect list \<Rightarrow> json" where
  "w_jsProspects ps = JArr (map w_jsProspect ps)"

text \<open>The tokens of the text of a prospect object.\<close>

definition prospectTokens :: "prospect \<Rightarrow> token list" where
  "prospectTokens p =
     [LBrace, Str (units ''id''), Colon, Atom (JNum (of_nat (p_id p))), Comma,
      Str (units ''firstName''), Colon, Str (units (p_firstName p)), Comma,
      Str (units ''lastName''), Colon, Str (units (p_lastName p)), Comma,
      Str (units ''company''), Colon, Str (units (p_company p)), Comma,
      Str (units ''domain''), Colon, Str (units (p_domain p)), Comma,
      Str (units ''email''), Colon, Str (units (p_email p)), Comma,
      Str (units ''title''), Colon, Str (units (p_title p)), Comma,
      Str (units ''status''), Colon, Str (units (p_status p)), RBrace]"

definition w_prospectTokens :: "w_prospect \<Rightarrow> token list" where
  "w_prospectTokens p =
     [LBrace, Str (units ''id''), Colon, Str (units (wp_id p)), Comma,
      Str (units ''firstName''), Colon, Str (units (wp_firstName p)), Comma,
      Str (units ''lastName''), Colon, Str (units (wp_lastName p)), Comma,
      Str (units ''company''), Colon, Str (units (wp_company p)), Comma,
      Str (units ''companyDomain''), Colon, Str (units (wp_companyDomain p)), Comma,
      Str (units ''email''), Colon, Str (units (wp_email p)), Comma,
      Str (units ''dateAdded''), Colon, Str (units (wp_dateAdded p)), RBrace]"

subsection \<open>Hub: component state and handlers\<close>

text \<open>The state of the hub component, and with it what the handlers do to the browser:
  \<open>alerts\<close> are the messages shown by \<^verbatim>\<open>alert\<close>, \<open>storage\<close> is the value under the key
  \<^verbatim>\<open>prospects\<close> of \<^verbatim>\<open>localStorage\<close> (\<open>None\<close>: no such key) and \<open>saves\<close> counts the
  calls of \<^verbatim>\<open>localStorage.setItem\<close>.\<close>

record hub =
  firstName :: string
  lastName :: string
  company :: string
  domain :: string
  email :: string
  title :: string
  prospects :: "prospect list"
  showHelpers :: bool
  aiGuesses :: string
  aiDraft :: string
  alerts :: "string list"
  storage :: "string option"
  saves :: nat

text \<open>\<^verbatim>\<open>setProspects\<close> together with the effect that depends on \<^verbatim>\<open>prospects\<close>: React
  renders again after the state has changed and then runs the effect, which writes the
  whole list to \<^verbatim>\<open>localStorage\<close>.\<close>

definition setProspects :: "prospect list \<Rightarrow> hub \<Rightarrow> hub" where
  "setProspects ps st =
     st\<lparr>prospects := ps, storage := Some (JSON_stringify ps), saves := Suc (saves st)\<rparr>"

text \<open>The effect that loads from \<^verbatim>\<open>localStorage\<close> on mount: the value of
  \<^verbatim>\<open>prospects\<close> after it, or the exception that leaves it. \<open>storedProspects\<close> is what
  \<^verbatim>\<open>getItem\<close> returns (\<open>None\<close> for \<^verbatim>\<open>null\<close>); the empty string is falsy, and then the
  initial empty list stays.\<close>

definition loadOnMount :: "string option \<Rightarrow> error + json" where
  "loadOnMount storedProspects =
    (case storedProspects of
       None \<Rightarrow> Inr (JArr [])
     | Some s \<Rightarrow> if s \<noteq> [] then JSON_parse s else Inr (JArr []))"

text \<open>\<open>now\<close> is the value of \<^verbatim>\<open>Date.now()\<close>.\<close>

definition handleLogProspect :: "nat \<Rightarrow> hub \<Rightarrow> hub" where
  "handleLogProspect now st =
    (if email st = [] \<or> firstName st = [] \<or> company st = [] then
       st\<lparr>alerts := alerts st @
         [''Please fill in at least First Name, Company, and Email to log a prospect.'']\<rparr>
     else
       let newProspect = \<lparr>p_id = now, p_firstName = firstName st, p_lastName = lastName st,
             p_company = company st, p_domain = domain st, p_email = email st,
             p_title = title st, p_status = ''Not Contacted''\<rparr>
       in (setProspects (newProspect # prospects st) st)
            \<lparr>firstName := [], lastName := [], company := [], domain := [], email := [],
             title := [], aiGuesses := [], aiDraft := []\<rparr>)"

text \<open>\<open>confirmed\<close> is the answer of \<^verbatim>\<open>window.confirm\<close>.\<close>

definition handleDeleteProspect :: "bool \<Rightarrow> nat \<Rightarrow> hub \<Rightarrow> hub" where
  "handleDeleteProspect confirmed i st =
    (if confirmed then setProspects (filter (\<lambda>p. p_id p \<noteq> i) (prospects st)) st else st)"

definition handleUpdateStatus :: "nat \<Rightarrow> string \<Rightarrow> hub \<Rightarrow> hub" where
  "handleUpdateStatus i newStatus st =
     setProspects (map (\<lambda>p. if p_id p = i then p\<lparr>p_status := newStatus\<rparr> else p)
                       (prospects st)) st"

definition handleGenerateAIGuesses :: "hub \<Rightarrow> hub" where
  "handleGenerateAIGuesses st =
     st\<lparr>aiGuesses := generateAIGuesses (firstName st) (lastName st) (domain st)\<rparr>"

definition handleDraftAIEmail :: "hub \<Rightarrow> hub" where
  "handleDraftAIEmail st = st\<lparr>aiDraft := draftAIEmail (firstName st) (company st)\<rparr>"

subsection \<open>Workflow: component state and handlers\<close>

text \<open>The state of the workflow component. \<open>w_error\<close> is the message shown above the
  logging form (\<open>None\<close> for \<^verbatim>\<open>null\<close>), \<open>w_opened\<close> lists the calls of \<^verbatim>\<open>window.open\<close>
  with their URL and target, \<open>w_storage\<close> is the value under the key
  \<^verbatim>\<open>workflowProspects\<close>.\<close>

record workflow =
  w_firstName :: string
  w_lastName :: string
  w_company :: string
  w_companyDomain :: string
  w_verifiedEmail :: string
  w_prospects :: "w_prospect list"
  w_error :: "string option"
  w_opened :: "(string \<times> string) list"
  w_storage :: "string option"
  w_saves :: nat

definition w_setProspects :: "w_prospect list \<Rightarrow> workflow \<Rightarrow> workflow" where
  "w_setProspects ps st =
     st\<lparr>w_prospects := ps, w_storage := Some (w_JSON_stringify ps),
        w_saves := Suc (w_saves st)\<rparr>"

text \<open>The initial value of \<^verbatim>\<open>prospects\<close>, computed from what \<^verbatim>\<open>getItem\<close> returns; the
  \<^verbatim>\<open>catch\<close> turns an exception of \<^verbatim>\<open>JSON.parse\<close> into the empty list.\<close>

definition w_initialProspects :: "string option \<Rightarrow> json" where
  "w_initialProspects saved =
    (case saved of
       None \<Rightarrow> JArr []
     | Some s \<Rightarrow>
         if s \<noteq> [] then (case JSON_parse s of Inl e \<Rightarrow> JArr [] | Inr v \<Rightarrow> v)
         else JArr [])"

text \<open>A URL is truthy when it is a non-empty string; \<^verbatim>\<open>null\<close> is falsy.\<close>

definition handleSearch :: "string \<Rightarrow> workflow \<Rightarrow> workflow" where
  "handleSearch service st =
    (case generateSearchUrl service (w_firstName st) (w_lastName st) (w_company st)
            (w_companyDomain st) of
       Some url \<Rightarrow>
         if url \<noteq> [] then st\<lparr>w_opened := w_opened st @ [(url, ''_blank'')]\<rparr>
         else st\<lparr>w_error := Some ''You must enter a 'Company Domain' to use that search!''\<rparr>
     | None \<Rightarrow>
         st\<lparr>w_error := Some ''You must enter a 'Company Domain' to use that search!''\<rparr>)"

text \<open>\<open>now\<close> is the value of \<^verbatim>\<open>Date.now()\<close> and \<open>isoString\<close> the value of
  \<^verbatim>\<open>new Date().toISOString()\<close>; the date added is the part of \<open>isoString\<close> before its first
  \<^verbatim>\<open>T\<close>.\<close>

definition w_handleLogProspect :: "nat \<Rightarrow> string \<Rightarrow> workflow \<Rightarrow> workflow" where
  "w_handleLogProspect now isoString st =
    (let st1 = st\<lparr>w_error := None\<rparr> in
     if w_firstName st1 = [] \<or> w_company st1 = [] \<or> w_verifiedEmail st1 = [] then
       st1\<lparr>w_error := Some
         ''First Name, Company, and Verified Email are required to log a prospect.''\<rparr>
     else
       let newProspect = \<lparr>wp_id = showNat now, wp_firstName = w_firstName st1,
             wp_lastName = w_lastName st1, wp_company = w_company st1,
             wp_companyDomain = w_companyDomain st1, wp_email = w_verifiedEmail st1,
             wp_dateAdded = takeWhile (\<lambda>c. c \<noteq> CHR ''T'') isoString\<rparr>
       in (w_setProspects (newProspect # w_prospects st1) st1)
            \<lparr>w_firstName := [], w_lastName := [], w_company := [], w_companyDomain := [],
             w_verifiedEmail := []\<rparr>)"

subsection \<open>CSV export\<close>

text \<open>What an export does: it shows a message, or it offers a document for download
  under a file name. For the hub the document is the text of the \<^verbatim>\<open>Blob\<close>, for the
  workflow it is the \<^verbatim>\<open>href\<close> of the link, a data URI.\<close>

datatype export = Alert string | Download string string

definition headers :: string where
  "headers = ''firstName,lastName,company,domain,email,title,status'' @ [LF]"

definition csvRow :: "prospect \<Rightarrow> string" where
  "csvRow p =
     [dquote] @ p_firstName p @ [dquote] @ '','' @ [dquote] @ p_lastName p @ [dquote] @ '',''
     @ [dquote] @ p_company p @ [dquote] @ '','' @ [dquote] @ p_domain p @ [dquote] @ '',''
     @ [dquote] @ p_email p @ [dquote] @ '','' @ [dquote] @ p_title p @ [dquote] @ '',''
     @ [dquote] @ p_status p @ [dquote]"

definition csvContent :: "prospect list \<Rightarrow> string" where
  "csvContent ps = join [LF] (map csvRow ps)"

definition exportToCSV :: "prospect list \<Rightarrow> export" where
  "exportToCSV ps =
    (if length ps = 0 then Alert ''No prospects to export!''
     else Download (headers @ csvContent ps) ''prospect_list.csv'')"

definition w_headers :: string where
  "w_headers = ''firstName,lastName,company,companyDomain,verifiedEmail,dateAdded''"

definition w_rows :: "w_prospect list \<Rightarrow> string" where
  "w_rows ps = join [LF] (map (\<lambda>p. join '',''
       [ [dquote] @ wp_firstName p @ [dquote],
         [dquote] @ wp_lastName p @ [dquote],
         [dquote] @ wp_company p @ [dquote],
         [dquote] @ wp_companyDomain p @ [dquote],
         [dquote] @ wp_email p @ [dquote],
         [dquote] @ wp_dateAdded p @ [dquote] ]) ps)"

definition w_csvContent :: "w_prospect list \<Rightarrow> string" where
  "w_csvContent ps = ''data:text/csv;charset=utf-8,'' @ w_headers @ [LF] @ w_rows ps"

definition w_exportToCSV :: "w_prospect list \<Rightarrow> export" where
  "w_exportToCSV ps =
    (if length ps = 0 then Alert ''Your prospect list is empty!''
     else Download (encodeURI (w_csvContent ps)) ''prospect_list.csv'')"

text \<open>The number of lines of a text: one more than the number of its line feeds.\<close>

definition lineCount :: "string \<Rightarrow> nat" where
  "lineCount s = Suc (length (filter (\<lambda>c. c = LF) s))"

text \<open>The line feeds inside the field values of a record; the export copies them into
  the document as they are.\<close>

definition lineFeeds :: "string \<Rightarrow> nat" where
  "lineFeeds s = length (filter (\<lambda>c. c = LF) s)"

definition embeddedLF :: "prospect \<Rightarrow> nat" where
  "embeddedLF p = lineFeeds (p_firstName p) + lineFeeds (p_lastName p)
     + lineFeeds (p_company p) + lineFeeds (p_domain p) + lineFeeds (p_email p)
     + lineFeeds (p_title p) + lineFeeds (p_status p)"

definition w_embeddedLF :: "w_prospect \<Rightarrow> nat" where
  "w_embeddedLF p = lineFeeds (wp_firstName p) + lineFeeds (wp_lastName p)
     + lineFeeds (wp_company p) + lineFeeds (wp_companyDomain p) + lineFeeds (wp_email p)
     + lineFeeds (wp_dateAdded p)"

subsection \<open>Example states\<close>

definition johnSmith :: prospect where
  "johnSmith = \<lparr>p_id = 1700000000000, p_firstName = ''John'', p_lastName = ''Smith'',
     p_company = ''Initech'', p_domain = ''initech.com'', p_email = ''john@initech.com'',
     p_title = ''CTO'', p_status = ''Contacted''\<rparr>"

definition janeDoe :: prospect where
  "janeDoe = \<lparr>p_id = 1700000360000, p_firstName = ''Jane'', p_lastName = ''Doe'',
     p_company = ''Acme Inc.'', p_domain = ''acme.com'', p_email = ''jane.doe@acme.com'',
     p_title = ''CEO'', p_status = ''Not Contacted''\<rparr>"

text \<open>John Smith with a title of two lines.\<close>

definition twoLineTitle :: prospect where
  "twoLineTitle = johnSmith\<lparr>p_title := ''CTO'' @ [LF] @ ''Founder''\<rparr>"

text \<open>The hub with John Smith logged and the form filled in for Jane Doe.\<close>

definition hubJane :: hub where
  "hubJane = \<lparr>firstName = ''Jane'', lastName = ''Doe'', company = ''Acme Inc.'',
     domain = ''acme.com'', email = ''jane.doe@acme.com'', title = ''CEO'',
     prospects = [johnSmith], showHelpers = True, aiGuesses = [], aiDraft = [],
     alerts = [], storage = Some (JSON_stringify [johnSmith]), saves = 1\<rparr>"

definition w_johnSmith :: w_prospect where
  "w_johnSmith = \<lparr>wp_id = ''1700000000000'', wp_firstName = ''John'',
     wp_lastName = ''Smith'', wp_company = ''Initech'', wp_companyDomain = ''initech.com'',
     wp_email = ''john@initech.com'', wp_dateAdded = ''2023-11-14''\<rparr>"

definition w_janeDoe :: w_prospect where
  "w_janeDoe = \<lparr>wp_id = ''42'', wp_firstName = ''Jane'',
     wp_lastName = ''Doe'', wp_company = ''Acme Inc.'', wp_companyDomain = ''acme.com'',
     wp_email = ''jane.doe@acme.com'', wp_dateAdded = ''2023-11-14''\<rparr>"

text \<open>The workflow with John Smith logged and the form filled in for Jane Doe.\<close>

definition workflowJane :: workflow where
  "workflowJane = \<lparr>w_firstName = ''Jane'', w_lastName = ''Doe'', w_company = ''Acme Inc.'',
     w_companyDomain = ''acme.com'', w_verifiedEmail = ''jane.doe@acme.com'',
     w_prospects = [w_johnSmith], w_error = None, w_opened = [],
     w_storage = Some (w_JSON_stringify [w_johnSmith]), w_saves = 1\<rparr>"

section \<open>Properties\<close>

subsection \<open>The generators\<close>

lemma toLowerCase_length [simp]: "length (toLowerCase s) = length s"
  by (simp add: toLowerCase_def)

lemma toLowerCase_Nil_iff [simp]: "toLowerCase s = [] \<longleftrightarrow> s = []"
  by (simp add: toLowerCase_def)

lemma charAt0_nonempty: "s \<noteq> [] \<Longrightarrow> charAt0 s = Some (take 1 s)"
  by (cases s) (simp_all add: charAt0_def)

text \<open>
  C4. For non-empty first name, last name and domain, \<open>generateAIGuesses\<close> yields the
  ten candidate addresses of \<open>patterns\<close>, joined by line feeds into the one string it
  returns. The candidates are built from the lower-cased names and their first code units
  and end in \<open>@domain\<close>, in the order full.full, initial+last, first+initial,
  first, last, first_last, initial.last, firstlast, last.first, initial+initial. For Jane Doe
  at acme.com the five addresses named by the specification are among the ten.
\<close>

theorem generateAIGuesses_ten_patterns:
  "(fname \<noteq> [] \<and> lname \<noteq> [] \<and> dname \<noteq> [] \<longrightarrow>
      generateAIGuesses fname lname dname
        = join [LF] (patterns fname lname dname)
    \<and> length (patterns fname lname dname) = 10
    \<and> patterns fname lname dname =
        [ toLowerCase fname @ ''.'' @ toLowerCase lname @ ''@'' @ dname,
          take 1 (toLowerCase fname) @ toLowerCase lname @ ''@'' @ dname,
          toLowerCase fname @ take 1 (toLowerCase lname) @ ''@'' @ dname,
          toLowerCase fname @ ''@'' @ dname,
          toLowerCase lname @ ''@'' @ dname,
          toLowerCase fname @ ''_'' @ toLowerCase lname @ ''@'' @ dname,
          take 1 (toLowerCase fname) @ ''.'' @ toLowerCase lname @ ''@'' @ dname,
          toLowerCase fname @ toLowerCase lname @ ''@'' @ dname,
          toLowerCase lname @ ''.'' @ toLowerCase fname @ ''@'' @ dname,
          take 1 (toLowerCase fname) @ take 1 (toLowerCase lname) @ ''@'' @ dname ])
   \<and> {''jane.doe@acme.com'', ''jdoe@acme.com'', ''janed@acme.com'', ''jane@acme.com'',
       ''doe@acme.com''} \<subseteq> set (patterns ''Jane'' ''Doe'' ''acme.com'')"
proof -
  have general: "generateAIGuesses fname lname dname
        = join [LF] (patterns fname lname dname)
    \<and> length (patterns fname lname dname) = 10
    \<and> patterns fname lname dname =
        [ toLowerCase fname @ ''.'' @ toLowerCase lname @ ''@'' @ dname,
          take 1 (toLowerCase fname) @ toLowerCase lname @ ''@'' @ dname,
          toLowerCase fname @ take 1 (toLowerCase lname) @ ''@'' @ dname,
          toLowerCase fname @ ''@'' @ dname,
          toLowerCase lname @ ''@'' @ dname,
          toLowerCase fname @ ''_'' @ toLowerCase lname @ ''@'' @ dname,
          take 1 (toLowerCase fname) @ ''.'' @ toLowerCase lname @ ''@'' @ dname,
          toLowerCase fname @ toLowerCase lname @ ''@'' @ dname,
          toLowerCase lname @ ''.'' @ toLowerCase fname @ ''@'' @ dname,
          take 1 (toLowerCase fname) @ take 1 (toLowerCase lname) @ ''@'' @ dname ]"
    if ne: "fname \<noteq> []" "lname \<noteq> []" "dname \<noteq> []"
  proof -
    have f: "charAt0 (toLowerCase fname) = Some (take 1 (toLowerCase fname))"
      using ne(1) by (simp add: charAt0_nonempty)
    have l: "charAt0 (toLowerCase lname) = Some (take 1 (toLowerCase lname))"
      using ne(2) by (simp add: charAt0_nonempty)
    have g: "generateAIGuesses fname lname dname
        = join [LF] (patterns fname lname dname)"
      using ne by (simp add: generateAIGuesses_def)
    have p: "patterns fname lname dname =
        [ toLowerCase fname @ ''.'' @ toLowerCase lname @ ''@'' @ dname,
          take 1 (toLowerCase fname) @ toLowerCase lname @ ''@'' @ dname,
          toLowerCase fname @ take 1 (toLowerCase lname) @ ''@'' @ dname,
          toLowerCase fname @ ''@'' @ dname,
          toLowerCase lname @ ''@'' @ dname,
          toLowerCase fname @ ''_'' @ toLowerCase lname @ ''@'' @ dname,
          take 1 (toLowerCase fname) @ ''.'' @ toLowerCase lname @ ''@'' @ dname,
          toLowerCase fname @ toLowerCase lname @ ''@'' @ dname,
          toLowerCase lname @ ''.'' @ toLowerCase fname @ ''@'' @ dname,
          take 1 (toLowerCase fname) @ take 1 (toLowerCase lname) @ ''@'' @ dname ]"
      unfolding patterns_def Let_def f l orEmpty_def interp_def by simp
    have n: "length (patterns fname lname dname) = 10"
      unfolding p by simp
    from g n p show ?thesis by blast
  qed
  have jane: "patterns ''Jane'' ''Doe'' ''acme.com'' =
      [''jane.doe@acme.com'', ''jdoe@acme.com'', ''janed@acme.com'', ''jane@acme.com'',
       ''doe@acme.com'', ''jane_doe@acme.com'', ''j.doe@acme.com'', ''janedoe@acme.com'',
       ''doe.jane@acme.com'', ''jd@acme.com'']"
    by code_simp
  have five: "{''jane.doe@acme.com'', ''jdoe@acme.com'', ''janed@acme.com'',
      ''jane@acme.com'', ''doe@acme.com''} \<subseteq> set (patterns ''Jane'' ''Doe'' ''acme.com'')"
    unfolding jane by simp
  from general five show ?thesis by blast
qed

theorem generateAIGuesses_ten_patterns_witness:
  "''Jane'' \<noteq> [] \<and> ''Doe'' \<noteq> [] \<and> ''acme.com'' \<noteq> []
   \<and> generateAIGuesses ''Jane'' ''Doe'' ''acme.com''
     = join [LF] [''jane.doe@acme.com'', ''jdoe@acme.com'', ''janed@acme.com'',
         ''jane@acme.com'', ''doe@acme.com'', ''jane_doe@acme.com'', ''j.doe@acme.com'',
         ''janedoe@acme.com'', ''doe.jane@acme.com'', ''jd@acme.com'']"
proof -
  have lower: "toLowerCase ''Jane'' = ''jane''" "toLowerCase ''Doe'' = ''doe''"
    by code_simp+
  show ?thesis
    using generateAIGuesses_ten_patterns [of "''Jane''" "''Doe''" "''acme.com''"]
    by (simp add: lower)
qed

text \<open>
  C5. When at least one of the three arguments is the empty string, the result of
  \<open>generateAIGuesses\<close> is the fixed prompt. The prompt holds neither an \<open>@\<close> nor a
  line feed, so no candidate address, whole or partial, is part of the result.
\<close>

theorem generateAIGuesses_empty_argument:
  "fname = [] \<or> lname = [] \<or> dname = [] \<Longrightarrow>
     generateAIGuesses fname lname dname = guessPrompt
   \<and> CHR ''@'' \<notin> set (generateAIGuesses fname lname dname)
   \<and> LF \<notin> set (generateAIGuesses fname lname dname)"
proof -
  assume e: "fname = [] \<or> lname = [] \<or> dname = []"
  then have g: "generateAIGuesses fname lname dname = guessPrompt"
    by (auto simp: generateAIGuesses_def)
  have "CHR ''@'' \<notin> set guessPrompt" "LF \<notin> set guessPrompt"
    by (simp_all add: guessPrompt_def)
  with g show ?thesis by simp
qed

theorem generateAIGuesses_empty_argument_witness:
  "(''Jane'' = [] \<or> ([]::string) = [] \<or> ''acme.com'' = [])
   \<and> generateAIGuesses ''Jane'' [] ''acme.com''
     = ''Please enter a first name, last name, and domain to generate guesses.''"
  using generateAIGuesses_empty_argument [of "''Jane''" "[]" "''acme.com''"]
  by (simp add: guessPrompt_def)

text \<open>
  C10. \<open>draftAIEmail\<close> tests the first name only. With a non-empty first name and an
  empty company the result is not the prompt but the whole template, the empty company
  put into the subject line (which then ends after "re: ") and into the body.
\<close>

theorem draftAIEmail_empty_company:
  "fname \<noteq> [] \<Longrightarrow>
     draftAIEmail fname [] \<noteq> draftPrompt
   \<and> draftAIEmail fname [] =
       ''Subject: Quick question re: '' @ [LF, LF]
       @ ''Hi '' @ fname @ '','' @ [LF, LF]
       @ ''I was on 's website and noticed you're the [Prospect's Title].'' @ [LF, LF]
       @ ''I specialize in [Your Service, e.g., 'modern web design'] and ''
       @ ''[Your Value Prop, e.g., 'help companies increase user engagement'].''
       @ '' I had a quick idea on how you could [Specific Idea for Them].'' @ [LF, LF]
       @ ''Would you be open to a 10-minute chat next week if you're interested?''
       @ [LF, LF] @ ''Best,'' @ [LF, LF] @ ''[Your Name]'' @ [LF]"
  by (simp add: draftAIEmail_def draftPrompt_def myService_def myValueProp_def myName_def)

theorem draftAIEmail_empty_company_witness:
  "''Jane'' \<noteq> [] \<and> take 30 (draftAIEmail ''Jane'' []) = ''Subject: Quick question re: '' @ [LF, LF]"
  using draftAIEmail_empty_company [of "''Jane''"] by simp

subsection \<open>Logging, deleting and updating prospects\<close>

text \<open>
  C1. When first name, company and email are all non-empty, logging a prospect makes the
  list one record longer, the new record (built from the form fields) is at index 0, and
  the records that were there before follow it unchanged and in the same order. This holds
  for the hub and for the workflow.
\<close>

theorem handleLogProspect_prepends:
  "(firstName st \<noteq> [] \<and> company st \<noteq> [] \<and> email st \<noteq> [] \<longrightarrow>
      length (prospects (handleLogProspect now st)) = Suc (length (prospects st))
    \<and> prospects (handleLogProspect now st) ! 0 =
        \<lparr>p_id = now, p_firstName = firstName st, p_lastName = lastName st,
         p_company = company st, p_domain = domain st, p_email = email st,
         p_title = title st, p_status = ''Not Contacted''\<rparr>
    \<and> drop 1 (prospects (handleLogProspect now st)) = prospects st)
   \<and> (w_firstName wst \<noteq> [] \<and> w_company wst \<noteq> [] \<and> w_verifiedEmail wst \<noteq> [] \<longrightarrow>
      length (w_prospects (w_handleLogProspect now isoString wst))
        = Suc (length (w_prospects wst))
    \<and> w_prospects (w_handleLogProspect now isoString wst) ! 0 =
        \<lparr>wp_id = showNat now, wp_firstName = w_firstName wst, wp_lastName = w_lastName wst,
         wp_company = w_company wst, wp_companyDomain = w_companyDomain wst,
         wp_email = w_verifiedEmail wst,
         wp_dateAdded = takeWhile (\<lambda>c. c \<noteq> CHR ''T'') isoString\<rparr>
    \<and> drop 1 (w_prospects (w_handleLogProspect now isoString wst)) = w_prospects wst)"
  by (simp add: handleLogProspect_def setProspects_def w_handleLogProspect_def
        w_setProspects_def Let_def)

theorem handleLogProspect_prepends_witness:
  "firstName hubJane \<noteq> [] \<and> company hubJane \<noteq> [] \<and> email hubJane \<noteq> []
   \<and> w_firstName workflowJane \<noteq> [] \<and> w_company workflowJane \<noteq> []
   \<and> w_verifiedEmail workflowJane \<noteq> []
   \<and> prospects (handleLogProspect 1700000360000 hubJane) ! 0 = janeDoe
   \<and> drop 1 (prospects (handleLogProspect 1700000360000 hubJane)) = [johnSmith]
   \<and> wp_firstName (w_prospects
         (w_handleLogProspect 1700000360000 ''2023-11-14T22:19:20.000Z'' workflowJane) ! 0)
       = ''Jane''
   \<and> wp_dateAdded (w_prospects
         (w_handleLogProspect 1700000360000 ''2023-11-14T22:19:20.000Z'' workflowJane) ! 0)
       = ''2023-11-14''
   \<and> drop 1 (w_prospects
         (w_handleLogProspect 1700000360000 ''2023-11-14T22:19:20.000Z'' workflowJane))
       = [w_johnSmith]"
  using handleLogProspect_prepends [of hubJane 1700000360000 workflowJane
      "''2023-11-14T22:19:20.000Z''"]
  by (simp add: hubJane_def workflowJane_def janeDoe_def)

text \<open>
  C2. When first name, company or email is empty, logging a prospect reports the
  validation message (the hub by \<^verbatim>\<open>alert\<close>, the workflow in its error field) and does
  nothing else: the prospect list is the same, the stored text is the same and
  \<^verbatim>\<open>localStorage.setItem\<close> has not been called.
\<close>

theorem handleLogProspect_validation_failure:
  "(firstName st = [] \<or> company st = [] \<or> email st = [] \<longrightarrow>
      handleLogProspect now st = st\<lparr>alerts := alerts st @
        [''Please fill in at least First Name, Company, and Email to log a prospect.'']\<rparr>
    \<and> prospects (handleLogProspect now st) = prospects st
    \<and> storage (handleLogProspect now st) = storage st
    \<and> saves (handleLogProspect now st) = saves st)
   \<and> (w_firstName wst = [] \<or> w_company wst = [] \<or> w_verifiedEmail wst = [] \<longrightarrow>
      w_handleLogProspect now isoString wst = wst\<lparr>w_error := Some
        ''First Name, Company, and Verified Email are required to log a prospect.''\<rparr>
    \<and> w_prospects (w_handleLogProspect now isoString wst) = w_prospects wst
    \<and> w_storage (w_handleLogProspect now isoString wst) = w_storage wst
    \<and> w_saves (w_handleLogProspect now isoString wst) = w_saves wst)"
  by (auto simp: handleLogProspect_def w_handleLogProspect_def Let_def)

theorem handleLogProspect_validation_failure_witness:
  "(firstName (hubJane\<lparr>email := []\<rparr>) = [] \<or> company (hubJane\<lparr>email := []\<rparr>) = []
      \<or> email (hubJane\<lparr>email := []\<rparr>) = [])
   \<and> (w_firstName (workflowJane\<lparr>w_company := []\<rparr>) = []
      \<or> w_company (workflowJane\<lparr>w_company := []\<rparr>) = []
      \<or> w_verifiedEmail (workflowJane\<lparr>w_company := []\<rparr>) = [])
   \<and> prospects (handleLogProspect 1700000360000 (hubJane\<lparr>email := []\<rparr>)) = [johnSmith]
   \<and> alerts (handleLogProspect 1700000360000 (hubJane\<lparr>email := []\<rparr>)) =
       [''Please fill in at least First Name, Company, and Email to log a prospect.'']
   \<and> saves (handleLogProspect 1700000360000 (hubJane\<lparr>email := []\<rparr>)) = 1
   \<and> w_prospects (w_handleLogProspect 1700000360000 ''2023-11-14T22:19:20.000Z''
        (workflowJane\<lparr>w_company := []\<rparr>)) = [w_johnSmith]
   \<and> w_error (w_handleLogProspect 1700000360000 ''2023-11-14T22:19:20.000Z''
        (workflowJane\<lparr>w_company := []\<rparr>)) =
       Some ''First Name, Company, and Verified Email are required to log a prospect.''"
  using handleLogProspect_validation_failure [of "hubJane\<lparr>email := []\<rparr>" 1700000360000
      "workflowJane\<lparr>w_company := []\<rparr>" "''2023-11-14T22:19:20.000Z''"]
  by (simp add: hubJane_def workflowJane_def)

text \<open>
  C8. For an id that no record of the list carries, deleting (whatever the user answers to
  the confirmation) and updating the status both leave the list as it was. Updating the
  status keeps the length of the list and every position: a record with the given id is
  replaced by itself with the new status and all its other fields as before, and every
  other record stays as it is.
\<close>

theorem delete_update_frame:
  "(i \<notin> p_id ` set (prospects st) \<longrightarrow>
      prospects (handleDeleteProspect confirmed i st) = prospects st
    \<and> prospects (handleUpdateStatus i newStatus st) = prospects st)
   \<and> length (prospects (handleUpdateStatus i newStatus st)) = length (prospects st)
   \<and> (\<forall>k < length (prospects st).
        prospects (handleUpdateStatus i newStatus st) ! k =
          (if p_id (prospects st ! k) = i
           then (prospects st ! k)\<lparr>p_status := newStatus\<rparr>
           else prospects st ! k))"
proof -
  have absent_filter: "filter (\<lambda>p. p_id p \<noteq> i) ps = ps" if "i \<notin> p_id ` set ps" for ps
    using that by (induction ps) auto
  have absent_map:
    "map (\<lambda>p. if p_id p = i then p\<lparr>p_status := newStatus\<rparr> else p) ps = ps"
    if "i \<notin> p_id ` set ps" for ps
    using that by (induction ps) auto
  show ?thesis
    by (simp add: handleDeleteProspect_def handleUpdateStatus_def setProspects_def
          absent_filter absent_map)
qed

theorem delete_update_frame_witness:
  "7 \<notin> p_id ` set (prospects (hubJane\<lparr>prospects := [janeDoe, johnSmith]\<rparr>))
   \<and> prospects (handleDeleteProspect True 7 (hubJane\<lparr>prospects := [janeDoe, johnSmith]\<rparr>))
       = [janeDoe, johnSmith]
   \<and> prospects (handleUpdateStatus 7 ''Replied''
        (hubJane\<lparr>prospects := [janeDoe, johnSmith]\<rparr>)) = [janeDoe, johnSmith]
   \<and> prospects (handleUpdateStatus 1700000000000 ''Replied''
        (hubJane\<lparr>prospects := [janeDoe, johnSmith]\<rparr>))
       = [janeDoe, johnSmith\<lparr>p_status := ''Replied''\<rparr>]"
proof -
  let ?st = "hubJane\<lparr>prospects := [janeDoe, johnSmith]\<rparr>"
  have absent: "7 \<notin> p_id ` set (prospects ?st)"
    by (simp add: janeDoe_def johnSmith_def)
  have len: "length (prospects ?st) = 2"
    by simp
  note a = delete_update_frame [of 7 ?st True "''Replied''"]
  note b = delete_update_frame [of 1700000000000 ?st True "''Replied''"]
  from b have k0: "prospects (handleUpdateStatus 1700000000000 ''Replied'' ?st) ! 0 = janeDoe"
    by (simp add: janeDoe_def johnSmith_def)
  from b have k1: "prospects (handleUpdateStatus 1700000000000 ''Replied'' ?st) ! 1
      = johnSmith\<lparr>p_status := ''Replied''\<rparr>"
    by (simp add: janeDoe_def johnSmith_def)
  from b len have l2: "length (prospects (handleUpdateStatus 1700000000000 ''Replied'' ?st)) = 2"
    by simp
  have upd: "prospects (handleUpdateStatus 1700000000000 ''Replied'' ?st)
      = [janeDoe, johnSmith\<lparr>p_status := ''Replied''\<rparr>]"
    using k0 k1 l2 by (auto simp: list_eq_iff_nth_eq less_Suc_eq numeral_2_eq_2)
  from a absent upd show ?thesis by simp
qed

subsection \<open>Search URLs\<close>

lemma hexUpper_unescaped: "d < 16 \<Longrightarrow> uriUnescaped (hexUpper d)"
  by (simp add: uriUnescaped_def hexUpper_def Let_def)

lemma utf8_octets: "n < 256 \<Longrightarrow> b \<in> set (utf8 n) \<Longrightarrow> b < 256"
  by (auto simp: utf8_def split: if_splits)

lemma percent_chars:
  "b < 256 \<Longrightarrow> x \<in> set (percent b) \<Longrightarrow> uriUnescaped x \<or> x = CHR ''%''"
  by (auto simp: percent_def hexUpper_unescaped less_mult_imp_div_less)

lemma encodeChar_chars:
  "x \<in> set (encodeChar uriUnescaped c) \<Longrightarrow> uriUnescaped x \<or> x = CHR ''%''"
proof (cases "uriUnescaped c")
  case True
  assume "x \<in> set (encodeChar uriUnescaped c)"
  with True show ?thesis by (simp add: encodeChar_def)
next
  case False
  assume "x \<in> set (encodeChar uriUnescaped c)"
  with False obtain b where b: "b \<in> set (utf8 (of_char c))" "x \<in> set (percent b)"
    by (auto simp: encodeChar_def)
  have "(of_char c :: nat) < 256" by simp
  then have "b < 256" using b(1) by (rule utf8_octets)
  then show ?thesis using b(2) by (rule percent_chars)
qed

lemma encodeURIComponent_chars:
  "list_all (\<lambda>x. uriUnescaped x \<or> x = CHR ''%'') (encodeURIComponent s)"
  by (auto simp: encodeURIComponent_def list_all_iff dest: encodeChar_chars)

lemma encodeURIComponent_no_delimiter:
  assumes "c \<in> set ''&=?# ''"
  shows "count_list (encodeURIComponent s) c = 0"
proof -
  have "\<not> uriUnescaped c" "c \<noteq> CHR ''%''"
    using assms by (auto simp: uriUnescaped_def)
  then have "c \<notin> set (encodeURIComponent s)"
    using encodeURIComponent_chars [of s] by (auto simp: list_all_iff)
  then show ?thesis
    by (simp add: count_list_0_iff)
qed

text \<open>
  C6. For the email finder (\<open>experte\<close>) \<open>generateSearchUrl\<close> returns \<^verbatim>\<open>null\<close> (here
  \<open>None\<close>) when the domain is empty, and \<open>handleSearch\<close> then sets the error message and
  opens no window. For a non-empty domain the URL is the address of the finder followed by
  the query \<open>name=\<close>, the URI-encoded trimmed "first last", \<open>&domain=\<close> and the URI-encoded
  domain; the two encoded values consist of unreserved characters and percent escapes only,
  so the URL has exactly one \<open>?\<close>, one \<open>&\<close> and two \<open>=\<close>, and neither a \<open>#\<close> nor a
  space. \<open>handleSearch\<close> opens exactly that URL.
\<close>

theorem experte_search_url:
  "generateSearchUrl ''experte'' fname lname cname [] = None
   \<and> (w_companyDomain st = [] \<longrightarrow>
        handleSearch ''experte'' st =
          st\<lparr>w_error := Some ''You must enter a 'Company Domain' to use that search!''\<rparr>
      \<and> w_opened (handleSearch ''experte'' st) = w_opened st)
   \<and> (dname \<noteq> [] \<longrightarrow>
        generateSearchUrl ''experte'' fname lname cname dname =
          Some (''https://www.experte.com/email-finder?name=''
                @ encodeURIComponent (trim (fname @ '' '' @ lname))
                @ ''&domain='' @ encodeURIComponent dname)
      \<and> list_all (\<lambda>x. uriUnescaped x \<or> x = CHR ''%'')
           (encodeURIComponent (trim (fname @ '' '' @ lname)))
      \<and> list_all (\<lambda>x. uriUnescaped x \<or> x = CHR ''%'') (encodeURIComponent dname)
      \<and> count_list (''https://www.experte.com/email-finder?name=''
                @ encodeURIComponent (trim (fname @ '' '' @ lname))
                @ ''&domain='' @ encodeURIComponent dname) (CHR ''?'') = 1
      \<and> count_list (''https://www.experte.com/email-finder?name=''
                @ encodeURIComponent (trim (fname @ '' '' @ lname))
                @ ''&domain='' @ encodeURIComponent dname) (CHR ''&'') = 1
      \<and> count_list (''https://www.experte.com/email-finder?name=''
                @ encodeURIComponent (trim (fname @ '' '' @ lname))
                @ ''&domain='' @ encodeURIComponent dname) (CHR ''='') = 2
      \<and> count_list (''https://www.experte.com/email-finder?name=''
                @ encodeURIComponent (trim (fname @ '' '' @ lname))
                @ ''&domain='' @ encodeURIComponent dname) (CHR ''#'') = 0
      \<and> count_list (''https://www.experte.com/email-finder?name=''
                @ encodeURIComponent (trim (fname @ '' '' @ lname))
                @ ''&domain='' @ encodeURIComponent dname) (CHR '' '') = 0)
   \<and> (w_companyDomain st \<noteq> [] \<longrightarrow>
        handleSearch ''experte'' st =
          st\<lparr>w_opened := w_opened st @
            [(''https://www.experte.com/email-finder?name=''
              @ encodeURIComponent (trim (w_firstName st @ '' '' @ w_lastName st))
              @ ''&domain='' @ encodeURIComponent (w_companyDomain st), ''_blank'')]\<rparr>)"
  by (simp add: generateSearchUrl_def handleSearch_def encodeURIComponent_chars
        encodeURIComponent_no_delimiter)

theorem experte_search_url_witness:
  "w_companyDomain (workflowJane\<lparr>w_companyDomain := []\<rparr>) = []
   \<and> w_opened (handleSearch ''experte'' (workflowJane\<lparr>w_companyDomain := []\<rparr>)) = []
   \<and> w_error (handleSearch ''experte'' (workflowJane\<lparr>w_companyDomain := []\<rparr>))
       = Some ''You must enter a 'Company Domain' to use that search!''
   \<and> ''acme.com'' \<noteq> []
   \<and> generateSearchUrl ''experte'' ''Jane'' ''Doe'' ''Acme Inc.'' ''acme.com''
       = Some ''https://www.experte.com/email-finder?name=Jane%20Doe&domain=acme.com''
   \<and> w_companyDomain workflowJane \<noteq> []
   \<and> w_opened (handleSearch ''experte'' workflowJane)
       = [(''https://www.experte.com/email-finder?name=Jane%20Doe&domain=acme.com'',
           ''_blank'')]"
proof -
  have enc: "encodeURIComponent (trim (''Jane'' @ '' '' @ ''Doe'')) = ''Jane%20Doe''"
    "encodeURIComponent ''acme.com'' = ''acme.com''"
    by code_simp+
  note a = experte_search_url [of "''Jane''" "''Doe''" "''Acme Inc.''"
      "workflowJane\<lparr>w_companyDomain := []\<rparr>" "''acme.com''"]
  note b = experte_search_url [of "''Jane''" "''Doe''" "''Acme Inc.''" workflowJane
      "''acme.com''"]
  from a b show ?thesis
    using enc by (simp add: workflowJane_def)
qed

subsection \<open>CSV export\<close>

lemma lineFeeds_append [simp]: "lineFeeds (a @ b) = lineFeeds a + lineFeeds b"
  by (simp add: lineFeeds_def)

lemma lineFeeds_Cons [simp]: "lineFeeds (c # s) = (if c = LF then 1 else 0) + lineFeeds s"
  by (simp add: lineFeeds_def)

lemma lineFeeds_Nil [simp]: "lineFeeds [] = 0"
  by (simp add: lineFeeds_def)

lemma lineFeeds_join:
  "rows \<noteq> [] \<Longrightarrow> Suc (lineFeeds (join [LF] rows)) = length rows + sum_list (map lineFeeds rows)"
  by (induction "[LF]" rows rule: join.induct) simp_all

lemma lineFeeds_join_commas:
  "lineFeeds (join '','' cells) = sum_list (map lineFeeds cells)"
  by (induction "'',''" cells rule: join.induct) simp_all

lemma lineFeeds_csvRow: "lineFeeds (csvRow p) = embeddedLF p"
  by (simp add: csvRow_def embeddedLF_def)

lemma lineCount_hub:
  assumes "ps \<noteq> []"
  shows "lineCount (headers @ csvContent ps) = length ps + 1 + sum_list (map embeddedLF ps)"
proof -
  have "Suc (lineFeeds (join [LF] (map csvRow ps)))
      = length (map csvRow ps) + sum_list (map lineFeeds (map csvRow ps))"
    using assms by (intro lineFeeds_join) simp
  then have "Suc (lineFeeds (csvContent ps)) = length ps + sum_list (map embeddedLF ps)"
    by (simp add: csvContent_def comp_def lineFeeds_csvRow)
  moreover have "lineCount (headers @ csvContent ps) = Suc (Suc (lineFeeds (csvContent ps)))"
    by (simp add: lineCount_def headers_def flip: lineFeeds_def)
  ultimately show ?thesis by simp
qed

lemma lineCount_workflow:
  assumes "ps \<noteq> []"
  shows "lineCount (w_csvContent ps) = length ps + 1 + sum_list (map w_embeddedLF ps)"
proof -
  let ?row = "\<lambda>p. join '',''
       [ [dquote] @ wp_firstName p @ [dquote],
         [dquote] @ wp_lastName p @ [dquote],
         [dquote] @ wp_company p @ [dquote],
         [dquote] @ wp_companyDomain p @ [dquote],
         [dquote] @ wp_email p @ [dquote],
         [dquote] @ wp_dateAdded p @ [dquote] ]"
  have row: "lineFeeds (?row p) = w_embeddedLF p" for p
    by (simp add: w_embeddedLF_def)
  have "Suc (lineFeeds (join [LF] (map ?row ps)))
      = length (map ?row ps) + sum_list (map lineFeeds (map ?row ps))"
    using assms by (intro lineFeeds_join) simp
  then have "Suc (lineFeeds (w_rows ps)) = length ps + sum_list (map w_embeddedLF ps)"
    unfolding w_rows_def map_map comp_def row by simp
  moreover have "lineCount (w_csvContent ps) = Suc (Suc (lineFeeds (w_rows ps)))"
    by (simp add: lineCount_def w_csvContent_def w_headers_def flip: lineFeeds_def)
  ultimately show ?thesis by simp
qed

text \<open>
  C7, as the code has it. On the empty list the export only shows a message. On a
  non-empty list of \<open>n\<close> records the document is the fixed header line, a line feed, and
  one row per record in list order, the rows separated by line feeds; a row is the field
  values, each between double quotes and copied without any escaping, joined by commas.
  The document has \<open>n + 1\<close> lines plus one more for every line feed inside a field value,
  hence exactly \<open>n + 1\<close> lines when no field value holds a line feed. In the workflow the
  header line follows the data-URI prefix, and the link carries the URI-encoded document.
\<close>

theorem exportToCSV_document:
  \<open>exportToCSV [] = Alert ''No prospects to export!''
   \<and> w_exportToCSV [] = Alert ''Your prospect list is empty!''
   \<and> (ps \<noteq> [] \<longrightarrow>
        exportToCSV ps =
          Download (''firstName,lastName,company,domain,email,title,status'' @ [LF]
                    @ join [LF] (map csvRow ps)) ''prospect_list.csv''
      \<and> lineCount (''firstName,lastName,company,domain,email,title,status'' @ [LF]
                    @ join [LF] (map csvRow ps))
          = length ps + 1 + sum_list (map embeddedLF ps)
      \<and> ((\<forall>p \<in> set ps. embeddedLF p = 0) \<longrightarrow>
          lineCount (''firstName,lastName,company,domain,email,title,status'' @ [LF]
                    @ join [LF] (map csvRow ps)) = length ps + 1))
   \<and> csvRow p = ''"'' @ p_firstName p @ ''","'' @ p_lastName p @ ''","'' @ p_company p
        @ ''","'' @ p_domain p @ ''","'' @ p_email p @ ''","'' @ p_title p
        @ ''","'' @ p_status p @ ''"''
   \<and> (wps \<noteq> [] \<longrightarrow>
        w_exportToCSV wps = Download (encodeURI (w_csvContent wps)) ''prospect_list.csv''
      \<and> w_csvContent wps =
          ''data:text/csv;charset=utf-8,''
          @ ''firstName,lastName,company,companyDomain,verifiedEmail,dateAdded'' @ [LF]
          @ join [LF] (map (\<lambda>p. ''"'' @ wp_firstName p @ ''","'' @ wp_lastName p
              @ ''","'' @ wp_company p @ ''","'' @ wp_companyDomain p @ ''","'' @ wp_email p
              @ ''","'' @ wp_dateAdded p @ ''"'') wps)
      \<and> lineCount (w_csvContent wps) = length wps + 1 + sum_list (map w_embeddedLF wps)
      \<and> ((\<forall>p \<in> set wps. w_embeddedLF p = 0) \<longrightarrow>
          lineCount (w_csvContent wps) = length wps + 1))\<close>
proof -
  have hub: "lineCount (''firstName,lastName,company,domain,email,title,status'' @ [LF]
                    @ join [LF] (map csvRow ps))
          = length ps + 1 + sum_list (map embeddedLF ps)" if "ps \<noteq> []"
    using lineCount_hub [OF that] by (simp add: headers_def csvContent_def)
  have zero: "sum_list (map f xs) = 0" if "\<forall>x \<in> set xs. f x = (0::nat)" for f and xs :: "'a list"
    using that by (induction xs) simp_all
  have wf: "lineCount (w_csvContent wps) = length wps + 1 + sum_list (map w_embeddedLF wps)"
    if "wps \<noteq> []"
    using lineCount_workflow [OF that] .
  have e: "exportToCSV ps =
          Download (''firstName,lastName,company,domain,email,title,status'' @ [LF]
                    @ join [LF] (map csvRow ps)) ''prospect_list.csv''" if "ps \<noteq> []"
    using that by (simp add: exportToCSV_def headers_def csvContent_def)
  have we: "w_exportToCSV wps = Download (encodeURI (w_csvContent wps)) ''prospect_list.csv''"
    if "wps \<noteq> []"
    using that by (simp add: w_exportToCSV_def)
  have r: \<open>csvRow p = ''"'' @ p_firstName p @ ''","'' @ p_lastName p @ ''","'' @ p_company p
        @ ''","'' @ p_domain p @ ''","'' @ p_email p @ ''","'' @ p_title p
        @ ''","'' @ p_status p @ ''"''\<close>
    by (simp add: csvRow_def)
  have wc: \<open>w_csvContent wps =
          ''data:text/csv;charset=utf-8,''
          @ ''firstName,lastName,company,companyDomain,verifiedEmail,dateAdded'' @ [LF]
          @ join [LF] (map (\<lambda>p. ''"'' @ wp_firstName p @ ''","'' @ wp_lastName p
              @ ''","'' @ wp_company p @ ''","'' @ wp_companyDomain p @ ''","'' @ wp_email p
              @ ''","'' @ wp_dateAdded p @ ''"'') wps)\<close>
    by (simp add: w_csvContent_def w_headers_def w_rows_def)
  have a: "exportToCSV [] = Alert ''No prospects to export!''"
    "w_exportToCSV [] = Alert ''Your prospect list is empty!''"
    by (simp_all add: exportToCSV_def w_exportToCSV_def)
  show ?thesis
    using a e hub wf we r wc zero [of ps embeddedLF] zero [of wps w_embeddedLF]
    by (simp only:) simp
qed

theorem exportToCSV_document_witness:
  "[janeDoe, johnSmith] \<noteq> [] \<and> embeddedLF janeDoe = 0 \<and> embeddedLF johnSmith = 0
   \<and> lineCount (headers @ csvContent [janeDoe, johnSmith]) = 3
   \<and> [w_janeDoe, w_johnSmith] \<noteq> [] \<and> w_embeddedLF w_janeDoe = 0
   \<and> w_embeddedLF w_johnSmith = 0
   \<and> lineCount (w_csvContent [w_janeDoe, w_johnSmith]) = 3"
proof -
  have z: "embeddedLF janeDoe = 0" "embeddedLF johnSmith = 0"
    "w_embeddedLF w_janeDoe = 0" "w_embeddedLF w_johnSmith = 0"
    by (simp_all add: embeddedLF_def w_embeddedLF_def janeDoe_def johnSmith_def
          w_janeDoe_def w_johnSmith_def)
  have d: "headers @ csvContent [janeDoe, johnSmith] =
      ''firstName,lastName,company,domain,email,title,status'' @ [LF]
      @ join [LF] (map csvRow [janeDoe, johnSmith])"
    by (simp add: headers_def csvContent_def)
  have ne: "[janeDoe, johnSmith] \<noteq> []" "[w_janeDoe, w_johnSmith] \<noteq> []"
    by simp_all
  have all0: "\<forall>p \<in> set [janeDoe, johnSmith]. embeddedLF p = 0"
    "\<forall>p \<in> set [w_janeDoe, w_johnSmith]. w_embeddedLF p = 0"
    by (simp_all add: z)
  from exportToCSV_document [of "[janeDoe, johnSmith]" janeDoe "[w_janeDoe, w_johnSmith]"]
  have a: "lineCount (''firstName,lastName,company,domain,email,title,status'' @ [LF]
      @ join [LF] (map csvRow [janeDoe, johnSmith])) = length [janeDoe, johnSmith] + 1"
    and b: "lineCount (w_csvContent [w_janeDoe, w_johnSmith])
      = length [w_janeDoe, w_johnSmith] + 1"
    using ne all0 by blast+
  from a b show ?thesis
    unfolding d by (simp add: z)
qed

text \<open>
  C7 as stated fails: a list of one record whose title holds a line feed is exported as a
  document of three lines, not of two.
\<close>

theorem exportToCSV_line_count_counterexample:
  \<open>exportToCSV [twoLineTitle] =
     Download (''firstName,lastName,company,domain,email,title,status'' @ [LF]
       @ ''"John","Smith","Initech","initech.com","john@initech.com","CTO'' @ [LF]
       @ ''Founder","Contacted"'') ''prospect_list.csv''
   \<and> lineCount (''firstName,lastName,company,domain,email,title,status'' @ [LF]
       @ ''"John","Smith","Initech","initech.com","john@initech.com","CTO'' @ [LF]
       @ ''Founder","Contacted"'') = 3
   \<and> lineCount (''firstName,lastName,company,domain,email,title,status'' @ [LF]
       @ ''"John","Smith","Initech","initech.com","john@initech.com","CTO'' @ [LF]
       @ ''Founder","Contacted"'') \<noteq> length [twoLineTitle] + 1\<close>
  by (simp add: exportToCSV_def headers_def csvContent_def csvRow_def twoLineTitle_def
        johnSmith_def lineCount_def)

subsection \<open>JSON: writing and reading the prospect list\<close>

lemma hexValue_hexLower: "d < 16 \<Longrightarrow> hexValue (hexLower d) = Some d"
  by (auto simp: hexValue_def hexLower_def Let_def)

lemma hex4_control:
  "n < 256 \<Longrightarrow> hex4 (CHR ''0'') (CHR ''0'') (hexLower (n div 16)) (hexLower (n mod 16)) = Some n"
proof -
  assume "n < 256"
  then have "n div 16 < 16" by simp
  then show ?thesis
    by (simp add: hex4_def hexValue_hexLower) (simp add: hexValue_def)
qed

lemma char_is: "c = d \<longleftrightarrow> (of_char c :: nat) = of_char d"
  by simp

lemma stringBody_quoteChar:
  "stringBody (quoteChar c @ rest) = consUnit (of_char c) (stringBody rest)"
proof -
  have lt: "(of_char c :: nat) < 256" by simp
  have q: "c = dquote \<longleftrightarrow> (of_char c :: nat) = 34"
    and b: "c = backslash \<longleftrightarrow> (of_char c :: nat) = 92"
    by (simp_all add: char_is [of c])
  show ?thesis
    unfolding quoteChar_def Let_def
    by (simp add: hex4_control [OF lt] unescape_def q b)
qed

lemma stringBody_quoted:
  "stringBody (concat (map quoteChar s) @ dquote # rest) = Some (units s, rest)"
  by (induction s) (simp_all add: stringBody_quoteChar consUnit_def units_def)

lemma tokenize_quoteJSON:
  "tokenize (quoteJSON s @ rest) = consToken (Str (units s)) (tokenize rest)"
  by (simp add: quoteJSON_def isWhite_def stringBody_quoted)


lemma isDigit_digitChar: "d < 10 \<Longrightarrow> isDigit (digitChar d)"
  by (simp add: isDigit_def digitChar_def)

lemma value_digitChar: "d < 10 \<Longrightarrow> (of_char (digitChar d) :: nat) - 48 = d"
  by (simp add: digitChar_def)

lemma showNat_digits: "c \<in> set (showNat n) \<Longrightarrow> isDigit c"
proof (induction n arbitrary: c rule: showNat.induct)
  case (1 n)
  show ?case
  proof (cases "n < 10")
    case True
    with "1.prems" show ?thesis
      by (simp add: showNat.simps [of n] isDigit_digitChar)
  next
    case False
    with "1.prems" "1.IH" show ?thesis
      by (auto simp: showNat.simps [of n] isDigit_digitChar)
  qed
qed

lemma showNat_not_Nil: "showNat n \<noteq> []"
  by (simp add: showNat.simps [of n])

lemma decimal_snoc: "decimal (ds @ [c]) = 10 * decimal ds + (of_char c - 48)"
  by (simp add: decimal_def)

lemma decimal_showNat: "decimal (showNat n) = n"
proof (induction n rule: showNat.induct)
  case (1 n)
  show ?case
  proof (cases "n < 10")
    case True
    then show ?thesis
      by (simp add: showNat.simps [of n] decimal_def value_digitChar)
  next
    case False
    with "1.IH" show ?thesis
      by (simp add: showNat.simps [of n] decimal_snoc value_digitChar)
  qed
qed

lemma showNat_first: "n \<noteq> 0 \<Longrightarrow> hd (showNat n) \<noteq> CHR ''0''"
proof (induction n rule: showNat.induct)
  case (1 n)
  show ?case
  proof (cases "n < 10")
    case True
    with "1.prems" have "(of_char (digitChar n) :: nat) \<noteq> of_char (CHR ''0'')"
      by (simp add: digitChar_def)
    then have "digitChar n \<noteq> CHR ''0''" by auto
    with True show ?thesis
      by (simp add: showNat.simps [of n])
  next
    case False
    then have "n div 10 \<noteq> 0" by simp
    with False "1.IH" show ?thesis
      by (simp add: showNat.simps [of n] showNat_not_Nil)
  qed
qed

lemma showNat_zero: "showNat 0 = ''0''"
proof -
  have "char_of (48::nat) = CHR ''0''" by code_simp
  then show ?thesis by (simp add: showNat.simps [of 0] digitChar_def)
qed

lemma takeWhile_showNat:
  "\<not> isDigit c \<Longrightarrow> takeWhile isDigit (showNat n @ c # rest) = showNat n"
  by (simp add: takeWhile_append2 showNat_digits)

lemma intDigits_showNat:
  assumes "\<not> isDigit c"
  shows "intDigits (showNat n @ c # rest) = showNat n"
proof (cases "n = 0")
  case True
  then show ?thesis
    by (simp add: showNat_zero intDigits_def)
next
  case False
  obtain d ds where s: "showNat n = d # ds"
    using showNat_not_Nil [of n] by (cases "showNat n") auto
  with showNat_first [OF False] have "d \<noteq> CHR ''0''" by simp
  then have "intDigits (showNat n @ c # rest) = takeWhile isDigit (showNat n @ c # rest)"
    by (simp add: intDigits_def s)
  with assms show ?thesis
    by (simp add: takeWhile_showNat)
qed

lemma showNat_no_minus: "showNat n = d # ds \<Longrightarrow> d \<noteq> CHR ''-''"
proof -
  assume "showNat n = d # ds"
  then have "isDigit d" using showNat_digits [of d n] by simp
  then show ?thesis by (auto simp: isDigit_def)
qed

lemma numberLit_showNat:
  "numberLit (showNat n @ CHR '','' # rest) = Some (of_nat n, CHR '','' # rest)"
proof -
  obtain d ds where s: "showNat n = d # ds"
    using showNat_not_Nil [of n] by (cases "showNat n") auto
  have m: "d \<noteq> CHR ''-''" using s by (rule showNat_no_minus)
  have c: "\<not> isDigit (CHR '','')" by (simp add: isDigit_def)
  have i: "intDigits (showNat n @ CHR '','' # rest) = showNat n"
    using c by (rule intDigits_showNat)
  have neg: "(case showNat n @ CHR '','' # rest of [] \<Rightarrow> False | c # _ \<Rightarrow> c = CHR ''-'') = False"
    using m by (simp add: s)
  show ?thesis
    unfolding numberLit_def Let_def neg
    by (simp add: i showNat_not_Nil fraction_def exponent_def decimal_showNat)
qed

lemma tokenize_digit:
  "isDigit c \<Longrightarrow> tokenize (c # cs) =
     (case numberLit (c # cs) of
        None \<Rightarrow> None
      | Some (q, rest) \<Rightarrow> consToken (Atom (JNum q)) (tokenize rest))"
proof -
  assume d: "isDigit c"
  have w: "\<not> isWhite c"
    using d by (auto simp: isDigit_def isWhite_def)
  have p: "c \<noteq> CHR ''{''" "c \<noteq> CHR ''}''" "c \<noteq> CHR ''[''" "c \<noteq> CHR '']''"
    "c \<noteq> CHR '':''" "c \<noteq> CHR '',''" "c \<noteq> dquote" "c \<noteq> CHR ''t''"
    "c \<noteq> CHR ''f''" "c \<noteq> CHR ''n''"
    using d by (auto simp: isDigit_def)
  show ?thesis
    by (simp only: tokenize.simps w p if_False)
qed

lemma tokenize_showNat:
  "tokenize (showNat n @ CHR '','' # rest) =
     consToken (Atom (JNum (of_nat n))) (consToken Comma (tokenize rest))"
proof -
  obtain d ds where s: "showNat n = d # ds"
    using showNat_not_Nil [of n] by (cases "showNat n") auto
  then have "isDigit d" using showNat_digits [of d n] by simp
  then have "tokenize (d # ds @ CHR '','' # rest) =
     (case numberLit (d # ds @ CHR '','' # rest) of
        None \<Rightarrow> None
      | Some (q, r) \<Rightarrow> consToken (Atom (JNum q)) (tokenize r))"
    by (rule tokenize_digit)
  moreover have "numberLit (d # ds @ CHR '','' # rest) = Some (of_nat n, CHR '','' # rest)"
    using numberLit_showNat [of n rest] by (simp add: s)
  ultimately show ?thesis
    by (simp add: s isWhite_def)
qed

lemma tokenize_stringifyProspect:
  "tokenize (stringifyProspect p @ rest) = map_option ((@) (prospectTokens p)) (tokenize rest)"
  unfolding stringifyProspect_def prospectTokens_def
  by (cases "tokenize rest")
     (simp_all add: tokenize_showNat tokenize_quoteJSON isWhite_def consToken_def units_def
        consUnit_def unescape_def)

lemma tokenize_w_stringifyProspect:
  "tokenize (w_stringifyProspect p @ rest)
     = map_option ((@) (w_prospectTokens p)) (tokenize rest)"
  unfolding w_stringifyProspect_def w_prospectTokens_def
  by (cases "tokenize rest")
     (simp_all add: tokenize_quoteJSON isWhite_def consToken_def units_def
        consUnit_def unescape_def)

lemma run_append:
  "run cf (ts @ us) = (case run cf ts of None \<Rightarrow> None | Some cf' \<Rightarrow> run cf' us)"
  by (induction ts arbitrary: cf) (simp_all split: option.splits)

lemma arrayIndex_letter: "\<not> (48 \<le> u \<and> u \<le> 57) \<Longrightarrow> arrayIndex (u # us) = None"
  by (auto simp: arrayIndex_def)

lemma run_prospect:
  "run (Value, st) (prospectTokens p) = Some (complete (jsProspect p) st)"
  by (simp add: prospectTokens_def jsProspect_def putMember_def units_def arrayIndex_letter)

lemma run_w_prospect:
  "run (Value, st) (w_prospectTokens p) = Some (complete (w_jsProspect p) st)"
  by (simp add: w_prospectTokens_def w_jsProspect_def putMember_def units_def
        arrayIndex_letter)

text \<open>The text of an array of objects, whatever the objects are.\<close>

lemma parse_array_of_objects:
  fixes render :: "'a \<Rightarrow> string" and toks :: "'a \<Rightarrow> token list" and js :: "'a \<Rightarrow> json"
  assumes tok: "\<And>p rest. tokenize (render p @ rest) = map_option ((@) (toks p)) (tokenize rest)"
    and val: "\<And>p st. run (Value, st) (toks p) = Some (complete (js p) st)"
    and obj: "\<And>p. hd (toks p) = LBrace \<and> toks p \<noteq> []"
  shows "JSON_parse (''['' @ join '','' (map render ps) @ '']'') = Inr (JArr (map js ps))"
proof (cases ps)
  case Nil
  then show ?thesis
    by (simp add: JSON_parse_def isWhite_def consToken_def)
next
  case (Cons p qs)
  let ?more = "\<lambda>qs. concat (map (\<lambda>q. Comma # toks q) qs)"
  have elements: "tokenize (join '','' (map render (p # qs)) @ rest)
      = map_option ((@) (toks p @ ?more qs)) (tokenize rest)" for p qs rest
  proof (induction qs arbitrary: p)
    case Nil
    show ?case by (simp add: tok)
  next
    case (Cons q qs)
    have "tokenize (join '','' (map render (p # q # qs)) @ rest)
        = tokenize (render p @ CHR '','' # join '','' (map render (q # qs)) @ rest)"
      by simp
    also have "\<dots> = map_option ((@) (toks p))
        (consToken Comma (tokenize (join '','' (map render (q # qs)) @ rest)))"
      by (simp only: tok) (simp add: isWhite_def)
    also have "\<dots> = map_option ((@) (toks p))
        (consToken Comma (map_option ((@) (toks q @ ?more qs)) (tokenize rest)))"
      by (simp only: Cons.IH)
    finally show ?case
      by (cases "tokenize rest") (simp_all add: consToken_def)
  qed
  have first: "run (FirstElement, st) (toks p) = Some (NextElement [js p], st)" for p st
  proof -
    obtain ts where t: "toks p = LBrace # ts"
      using obj [of p] by (cases "toks p") auto
    then have "run (FirstElement, st) (toks p) = run (Value, InArray [] # st) (toks p)"
      by simp
    then show ?thesis
      by (simp only: val) simp
  qed
  have more: "run (NextElement vs, st) (?more qs) = Some (NextElement (vs @ map js qs), st)"
    for vs st qs
  proof (induction qs arbitrary: vs)
    case Nil
    show ?case by simp
  next
    case (Cons q qs)
    have "run (NextElement vs, st) (?more (q # qs))
        = run (Value, InArray vs # st) (toks q @ ?more qs)"
      by simp
    also have "\<dots> = run (NextElement (vs @ [js q]), st) (?more qs)"
      by (simp only: run_append val) simp
    finally show ?case
      by (simp add: Cons.IH)
  qed
  have "tokenize (''['' @ join '','' (map render ps) @ '']'')
      = consToken LBrack (tokenize (join '','' (map render (p # qs)) @ '']''))"
    by (simp add: Cons isWhite_def)
  also have "\<dots> = consToken LBrack (map_option ((@) (toks p @ ?more qs)) (tokenize '']''))"
    by (simp only: elements)
  also have "\<dots> = Some (LBrack # (toks p @ ?more qs) @ [RBrack])"
    by (simp add: isWhite_def consToken_def)
  finally have t: "tokenize (''['' @ join '','' (map render ps) @ '']'')
      = Some (LBrack # (toks p @ ?more qs) @ [RBrack])" .
  have "run (Value, []) (LBrack # (toks p @ ?more qs) @ [RBrack])
      = run (FirstElement, []) (toks p @ (?more qs @ [RBrack]))"
    by simp
  also have "\<dots> = run (NextElement [js p], []) (?more qs @ [RBrack])"
    by (simp only: run_append [of _ "toks p"] first) simp
  also have "\<dots> = run (NextElement ([js p] @ map js qs), []) [RBrack]"
    by (simp only: run_append [of _ "?more qs"] more) simp
  also have "\<dots> = Some (Done (JArr (map js ps)), [])"
    by (simp add: Cons)
  finally have r: "run (Value, []) (LBrack # (toks p @ ?more qs) @ [RBrack])
      = Some (Done (JArr (map js ps)), [])" .
  have "JSON_parse (''['' @ join '','' (map render ps) @ '']'') =
      (case run (Value, []) (LBrack # (toks p @ ?more qs) @ [RBrack]) of
         Some (Done v, st) \<Rightarrow> Inr v
       | _ \<Rightarrow> Inl SyntaxError)"
    by (simp only: JSON_parse_def t option.case)
  then show ?thesis
    by (simp only: r) simp
qed

lemma JSON_parse_stringify: "JSON_parse (JSON_stringify ps) = Inr (jsProspects ps)"
  unfolding JSON_stringify_def jsProspects_def
  by (rule parse_array_of_objects [where toks = prospectTokens])
     (simp_all add: tokenize_stringifyProspect run_prospect, simp add: prospectTokens_def)

lemma JSON_parse_w_stringify: "JSON_parse (w_JSON_stringify ps) = Inr (w_jsProspects ps)"
  unfolding w_JSON_stringify_def w_jsProspects_def
  by (rule parse_array_of_objects [where toks = w_prospectTokens])
     (simp_all add: tokenize_w_stringifyProspect run_w_prospect, simp add: w_prospectTokens_def)

lemma units_inject: "units s = units t \<Longrightarrow> s = t"
  unfolding units_def by (rule map_injective) (auto simp: inj_on_def)

lemma jsProspect_inject: "jsProspect p = jsProspect q \<Longrightarrow> p = q"
  by (cases p, cases q) (auto simp: jsProspect_def dest: units_inject)

lemma jsProspects_inject: "jsProspects ps = jsProspects qs \<Longrightarrow> ps = qs"
  unfolding jsProspects_def
  by (auto intro!: map_injective [of jsProspect] simp: inj_on_def dest: jsProspect_inject)

lemma w_jsProspect_inject: "w_jsProspect p = w_jsProspect q \<Longrightarrow> p = q"
  by (cases p, cases q) (auto simp: w_jsProspect_def dest: units_inject)

lemma w_jsProspects_inject: "w_jsProspects ps = w_jsProspects qs \<Longrightarrow> ps = qs"
  unfolding w_jsProspects_def
  by (auto intro!: map_injective [of w_jsProspect] simp: inj_on_def dest: w_jsProspect_inject)

lemma JSON_stringify_not_Nil: "JSON_stringify ps \<noteq> []" "w_JSON_stringify wps \<noteq> []"
  by (simp_all add: JSON_stringify_def w_JSON_stringify_def)

text \<open>
  C9. Writing a prospect list to the store and then initialising from the store gives the
  list back: the value read is the JavaScript value of the original list, with the records
  in the same order and every field as it was, and it is the value of no other list. In
  the hub the ids are time values (at most 8640000000000000), which \<^verbatim>\<open>JSON.stringify\<close>
  prints as plain decimals and \<^verbatim>\<open>JSON.parse\<close> reads back exactly. The store is read as
  it was written.
\<close>

theorem persist_then_initialize:
  "((\<forall>p \<in> set ps. p_id p \<le> 8640000000000000) \<longrightarrow>
        storage (setProspects ps st) = Some (JSON_stringify ps)
      \<and> loadOnMount (storage (setProspects ps st)) = Inr (jsProspects ps)
      \<and> (loadOnMount (storage (setProspects ps st)) = Inr (jsProspects qs) \<longrightarrow> qs = ps))
   \<and> w_storage (w_setProspects wps wst) = Some (w_JSON_stringify wps)
   \<and> w_initialProspects (w_storage (w_setProspects wps wst)) = w_jsProspects wps
   \<and> (w_initialProspects (w_storage (w_setProspects wps wst)) = w_jsProspects wqs
        \<longrightarrow> wqs = wps)"
proof -
  have h: "loadOnMount (storage (setProspects ps st)) = Inr (jsProspects ps)"
    by (simp add: setProspects_def loadOnMount_def JSON_stringify_not_Nil JSON_parse_stringify)
  have w: "w_initialProspects (w_storage (w_setProspects wps wst)) = w_jsProspects wps"
    by (simp add: w_setProspects_def w_initialProspects_def JSON_stringify_not_Nil
          JSON_parse_w_stringify)
  show ?thesis
    unfolding h w
    by (auto simp: setProspects_def w_setProspects_def
          dest: jsProspects_inject w_jsProspects_inject)
qed

theorem persist_then_initialize_witness:
  \<open>p_id janeDoe \<le> 8640000000000000 \<and> p_id johnSmith \<le> 8640000000000000
   \<and> loadOnMount (storage (setProspects [janeDoe, johnSmith] hubJane))
       = Inr (jsProspects [janeDoe, johnSmith])
   \<and> w_initialProspects (w_storage (w_setProspects [w_janeDoe, w_johnSmith] workflowJane))
       = w_jsProspects [w_janeDoe, w_johnSmith]\<close>
proof -
  have b: "\<forall>p \<in> set [janeDoe, johnSmith]. p_id p \<le> 8640000000000000"
    by (simp add: janeDoe_def johnSmith_def)
  from persist_then_initialize [of "[janeDoe, johnSmith]" hubJane "[janeDoe, johnSmith]"
      "[w_janeDoe, w_johnSmith]" workflowJane "[w_janeDoe, w_johnSmith]"] b
  have "loadOnMount (storage (setProspects [janeDoe, johnSmith] hubJane))
       = Inr (jsProspects [janeDoe, johnSmith])"
    and "w_initialProspects (w_storage (w_setProspects [w_janeDoe, w_johnSmith] workflowJane))
       = w_jsProspects [w_janeDoe, w_johnSmith]"
    by blast+
  moreover have "p_id janeDoe \<le> 8640000000000000" "p_id johnSmith \<le> 8640000000000000"
    by (simp_all add: janeDoe_def johnSmith_def)
  ultimately show ?thesis
    by blast
qed

lemma digitChar_values:
  "digitChar 0 = CHR ''0''" "digitChar 1 = CHR ''1''" "digitChar 2 = CHR ''2''"
  "digitChar 3 = CHR ''3''" "digitChar 4 = CHR ''4''" "digitChar 5 = CHR ''5''"
  "digitChar 6 = CHR ''6''" "digitChar 7 = CHR ''7''" "digitChar 8 = CHR ''8''"
  "digitChar 9 = CHR ''9''" "digitChar (Suc 0) = CHR ''1''"
proof -
  have "char_of (48::nat) = CHR ''0''" "char_of (49::nat) = CHR ''1''"
    "char_of (50::nat) = CHR ''2''" "char_of (51::nat) = CHR ''3''"
    "char_of (52::nat) = CHR ''4''" "char_of (53::nat) = CHR ''5''"
    "char_of (54::nat) = CHR ''6''" "char_of (55::nat) = CHR ''7''"
    "char_of (56::nat) = CHR ''8''" "char_of (57::nat) = CHR ''9''"
    by code_simp+
  then show "digitChar 0 = CHR ''0''" "digitChar 1 = CHR ''1''" "digitChar 2 = CHR ''2''"
    "digitChar 3 = CHR ''3''" "digitChar 4 = CHR ''4''" "digitChar 5 = CHR ''5''"
    "digitChar 6 = CHR ''6''" "digitChar 7 = CHR ''7''" "digitChar 8 = CHR ''8''"
    "digitChar 9 = CHR ''9''" "digitChar (Suc 0) = CHR ''1''"
    by (simp_all add: digitChar_def)
qed

text \<open>The text that the hub stores for the list with John Smith alone.\<close>

lemma stored_text_example:
  \<open>JSON_stringify [johnSmith] =
     ''[{"id":1700000000000,"firstName":"John","lastName":"Smith","company":"Initech",''
     @ ''"domain":"initech.com","email":"john@initech.com","title":"CTO",''
     @ ''"status":"Contacted"}]''\<close>
  by (simp add: JSON_stringify_def stringifyProspect_def johnSmith_def quoteJSON_def
        quoteChar_def showNat.simps digitChar_values)

text \<open>The workflow starts with the empty list when the key is missing and when the text
  is malformed; the hub starts with the empty list when the key is missing.\<close>

lemma malformed_absorbed_by_workflow:
  "JSON_parse s = Inl e \<Longrightarrow> w_initialProspects (Some s) = JArr []"
  by (simp add: w_initialProspects_def)

lemma missing_key: "loadOnMount None = Inr (JArr [])" "w_initialProspects None = JArr []"
  by (simp_all add: loadOnMount_def w_initialProspects_def)

text \<open>
  C3. On a missing key both variants start with the empty list, and on malformed JSON the
  workflow does so too, its \<^verbatim>\<open>catch\<close> absorbing the failure. The hub calls
  \<^verbatim>\<open>JSON.parse\<close> unguarded: on the malformed text \<^verbatim>\<open>{\<close> the \<^verbatim>\<open>SyntaxError\<close> leaves the
  effect, so the list is not initialised and the failure is not absorbed.
\<close>

theorem loadOnMount_malformed_throws:
  "JSON_parse ''{'' = Inl SyntaxError
   \<and> loadOnMount (Some ''{'') = Inl SyntaxError
   \<and> w_initialProspects (Some ''{'') = JArr []"
proof -
  have "JSON_parse ''{'' = Inl SyntaxError"
    by (simp add: JSON_parse_def isWhite_def consToken_def)
  then show ?thesis
    by (simp add: loadOnMount_def w_initialProspects_def)
qed

end
